theory Spec2Isabelle
  imports Complex_Main
begin

section \<open>Data model\<close>

text \<open>
  A shallow embedding of the pose-comparison pipeline of the physiotherapy backend
  (\<^verbatim>\<open>backend/utils.py\<close>, \<^verbatim>\<open>similarity.py\<close>, \<^verbatim>\<open>feedback.py\<close>, \<^verbatim>\<open>pose_engine.py\<close>,
  \<^verbatim>\<open>websocket_handler.py\<close>, \<^verbatim>\<open>app.py\<close>).

  Python floats are modelled as exact reals: every arithmetic operation of the source is
  the corresponding operation on \<^typ>\<open>real\<close>, so the theorems below are about the
  algorithm the code implements, not about the rounding of IEEE doubles.

  A keypoint is the Python list \<^verbatim>\<open>[x, y, confidence]\<close>; a skeleton is a list of
  keypoints; an angle dictionary maps joint names to a float or \<^verbatim>\<open>None\<close> and is kept as
  an association list in insertion order.
\<close>

type_synonym keypoint = "real \<times> real \<times> real"
type_synonym skeleton = "keypoint list"
type_synonym angle_dict = "(string \<times> real option) list"

datatype error = IndexError | ValueError | KeyError | ZeroDivisionError

fun kx :: "keypoint \<Rightarrow> real" where "kx (x, y, c) = x"
fun ky :: "keypoint \<Rightarrow> real" where "ky (x, y, c) = y"
fun kc :: "keypoint \<Rightarrow> real" where "kc (x, y, c) = c"

text \<open>\<^verbatim>\<open>d.get(name)\<close>: a missing key and a key bound to \<^verbatim>\<open>None\<close> both give \<^verbatim>\<open>None\<close>.\<close>

definition dict_get :: "angle_dict \<Rightarrow> string \<Rightarrow> real option" where
  "dict_get d name = (case map_of d name of None \<Rightarrow> None | Some v \<Rightarrow> v)"

definition MIN_CONFIDENCE :: real where
  "MIN_CONFIDENCE = 3 / 10"

text \<open>\<^verbatim>\<open>ANGLE_DEFINITIONS\<close>, in the order the dictionary literal lists its keys.\<close>

definition ANGLE_DEFINITIONS :: "(string \<times> nat \<times> nat \<times> nat) list" where
  "ANGLE_DEFINITIONS =
    [(''left_elbow'', 5, 7, 9),
     (''right_elbow'', 6, 8, 10),
     (''left_shoulder'', 7, 5, 11),
     (''right_shoulder'', 8, 6, 12),
     (''left_knee'', 11, 13, 15),
     (''right_knee'', 12, 14, 16),
     (''left_hip'', 5, 11, 13),
     (''right_hip'', 6, 12, 14)]"

definition ANGLE_NAMES :: "string list" where
  "ANGLE_NAMES = map fst ANGLE_DEFINITIONS"

subsection \<open>Python's \<^verbatim>\<open>round(x, ndigits)\<close> and numpy's mean\<close>

text \<open>
  \<^verbatim>\<open>round\<close> on a float rounds the exact value to the nearest multiple of
  \<open>10\<^sup>-\<^sup>n\<close>, a tie going to the even neighbour.
\<close>

definition round_half_even :: "real \<Rightarrow> int" where
  "round_half_even x =
    (let f = \<lfloor>x\<rfloor>; r = x - of_int f
     in if r < 1 / 2 then f
        else if 1 / 2 < r then f + 1
        else if even f then f else f + 1)"

definition py_round :: "real \<Rightarrow> nat \<Rightarrow> real" where
  "py_round x ndigits = of_int (round_half_even (x * 10 ^ ndigits)) / 10 ^ ndigits"

definition np_mean :: "real list \<Rightarrow> real" where
  "np_mean xs = sum_list xs / real (length xs)"

section \<open>Similarity scoring (\<^verbatim>\<open>similarity.py\<close>)\<close>

subsection \<open>Positional sub-score\<close>

text \<open>
  The mask \<^verbatim>\<open>(live[:, 2] >= MIN_CONFIDENCE) & (ref[:, 2] >= MIN_CONFIDENCE)\<close>. numpy raises
  IndexError on an empty array (it is one-dimensional), broadcasts a one-row array against
  the other, and raises ValueError on any other pair of different lengths.
\<close>

definition confidence_mask :: "skeleton \<Rightarrow> skeleton \<Rightarrow> error + bool list" where
  "confidence_mask live refk =
    (if live = [] \<or> refk = [] then Inl IndexError
     else if length live = length refk then
       Inr (map (\<lambda>(l, r). MIN_CONFIDENCE \<le> kc l \<and> MIN_CONFIDENCE \<le> kc r) (zip live refk))
     else if length live = 1 then
       Inr (map (\<lambda>r. MIN_CONFIDENCE \<le> kc (hd live) \<and> MIN_CONFIDENCE \<le> kc r) refk)
     else if length refk = 1 then
       Inr (map (\<lambda>l. MIN_CONFIDENCE \<le> kc l \<and> MIN_CONFIDENCE \<le> kc (hd refk)) live)
     else Inl ValueError)"

text \<open>\<^verbatim>\<open>np.linalg.norm(live_pts - ref_pts, axis=1)\<close> for one row.\<close>

definition point_distance :: "keypoint \<Rightarrow> keypoint \<Rightarrow> real" where
  "point_distance l r = sqrt ((kx l - kx r)\<^sup>2 + (ky l - ky r)\<^sup>2)"

text \<open>The rows selected by the mask, \<^verbatim>\<open>live[mask, :2]\<close> and \<^verbatim>\<open>ref[mask, :2]\<close>, paired.\<close>

definition masked_pairs :: "skeleton \<Rightarrow> skeleton \<Rightarrow> (keypoint \<times> keypoint) list" where
  "masked_pairs live refk =
    filter (\<lambda>(l, r). MIN_CONFIDENCE \<le> kc l \<and> MIN_CONFIDENCE \<le> kc r) (zip live refk)"

definition compute_keypoint_similarity :: "skeleton \<Rightarrow> skeleton \<Rightarrow> error + real" where
  "compute_keypoint_similarity live refk =
    (case confidence_mask live refk of
       Inl e \<Rightarrow> Inl e
     | Inr msk \<Rightarrow>
         if length (filter (\<lambda>b. b) msk) < 3 then Inr 50
         else if length live \<noteq> length refk then Inl IndexError
         else
           let distances = map (\<lambda>(l, r). point_distance l r) (masked_pairs live refk);
               k = 2;
               similarities = map (\<lambda>d. exp (- k * d)) distances
           in Inr (np_mean similarities * 100))"

subsection \<open>Angle sub-score\<close>

text \<open>The \<^verbatim>\<open>if/elif\<close> chain of the loop body, from the absolute difference to the score.\<close>

definition diff_score :: "real \<Rightarrow> real" where
  "diff_score diff =
    (if diff \<le> 15 then 100
     else if diff \<le> 30 then 100 - (diff - 15) * 2
     else if diff \<le> 60 then 70 - (diff - 30) * (40 / 30)
     else max 0 (30 - (diff - 60)))"

fun angle_scores :: "string list \<Rightarrow> angle_dict \<Rightarrow> angle_dict \<Rightarrow> real list" where
  "angle_scores [] live_angles ref_angles = []"
| "angle_scores (name # names) live_angles ref_angles =
    (case dict_get live_angles name of
       None \<Rightarrow> angle_scores names live_angles ref_angles
     | Some live_angle \<Rightarrow>
        (case dict_get ref_angles name of
           None \<Rightarrow> angle_scores names live_angles ref_angles
         | Some ref_angle \<Rightarrow>
             diff_score \<bar>live_angle - ref_angle\<bar> # angle_scores names live_angles ref_angles))"

definition compute_angle_similarity :: "angle_dict \<Rightarrow> angle_dict \<Rightarrow> real" where
  "compute_angle_similarity live_angles ref_angles =
    (let scores = angle_scores ANGLE_NAMES live_angles ref_angles
     in if scores = [] then 50 else np_mean scores)"

subsection \<open>Final score\<close>

text \<open>The last two lines of \<^verbatim>\<open>compute_similarity\<close>: blend, clamp, round.\<close>

definition final_score :: "real \<Rightarrow> real \<Rightarrow> real" where
  "final_score kp_score angle_score =
    (let final = 0.25 * kp_score + 0.75 * angle_score
     in py_round (max 0 (min 100 final)) 1)"

definition compute_similarity ::
  "skeleton \<Rightarrow> skeleton \<Rightarrow> angle_dict \<Rightarrow> angle_dict \<Rightarrow> error + real" where
  "compute_similarity live_kps ref_kps live_angles ref_angles =
    (case compute_keypoint_similarity live_kps ref_kps of
       Inl e \<Rightarrow> Inl e
     | Inr kp_score \<Rightarrow>
         Inr (final_score kp_score (compute_angle_similarity live_angles ref_angles)))"

section \<open>Geometry (\<^verbatim>\<open>utils.py\<close>)\<close>

definition np_clip :: "real \<Rightarrow> real \<Rightarrow> real \<Rightarrow> real" where
  "np_clip a lo hi = min (max a lo) hi"

definition np_degrees :: "real \<Rightarrow> real" where
  "np_degrees a = a * 180 / pi"

definition compute_angle :: "keypoint \<Rightarrow> keypoint \<Rightarrow> keypoint \<Rightarrow> real" where
  "compute_angle p1 p2 p3 =
    (let v1 = (kx p1 - kx p2, ky p1 - ky p2);
         v2 = (kx p3 - kx p2, ky p3 - ky p2);
         norm1 = sqrt ((fst v1)\<^sup>2 + (snd v1)\<^sup>2);
         norm2 = sqrt ((fst v2)\<^sup>2 + (snd v2)\<^sup>2)
     in if norm1 < 1 / 10 ^ 8 \<or> norm2 < 1 / 10 ^ 8 then 0
        else
          let cos_angle = (fst v1 * fst v2 + snd v1 * snd v2) / (norm1 * norm2)
          in np_degrees (arccos (np_clip cos_angle (- 1) 1)))"

text \<open>
  The scale factor of \<^verbatim>\<open>normalize_keypoints\<close>: the distance from the left shoulder (row 5)
  to the right hip (row 12), replaced by 1.0 when it is below \<^verbatim>\<open>1e-8\<close>.
\<close>

definition torso_size :: "skeleton \<Rightarrow> real" where
  "torso_size kps =
    (let left_shoulder = kps ! 5;
         right_hip = kps ! 12;
         sz = sqrt ((kx left_shoulder - kx right_hip)\<^sup>2 + (ky left_shoulder - ky right_hip)\<^sup>2)
     in if sz < 1 / 10 ^ 8 then 1 else sz)"

definition torso_center :: "skeleton \<Rightarrow> real \<times> real" where
  "torso_center kps =
    (let left_hip = kps ! 11;
         right_hip = kps ! 12
     in ((kx left_hip + kx right_hip) / 2, (ky left_hip + ky right_hip) / 2))"

text \<open>Rows 11, 12 and 5 are read: an array of fewer than 13 rows raises IndexError.\<close>

definition normalize_keypoints :: "skeleton \<Rightarrow> error + skeleton" where
  "normalize_keypoints keypoints =
    (if length keypoints \<le> 12 then Inl IndexError
     else
       Inr (map (\<lambda>kp. ((kx kp - fst (torso_center keypoints)) / torso_size keypoints,
                        (ky kp - snd (torso_center keypoints)) / torso_size keypoints,
                        kc kp))
              keypoints))"

section \<open>The pose engine (\<^verbatim>\<open>pose_engine.py\<close>)\<close>

definition MEDIAPIPE_INDICES :: "nat list" where
  "MEDIAPIPE_INDICES = [0, 2, 5, 7, 8, 11, 12, 13, 14, 15, 16, 23, 24, 25, 26, 27, 28]"

text \<open>
  The landmark detector is external. Its result for a frame is the list
  \<^verbatim>\<open>result.pose_landmarks\<close>: one list of landmarks \<^verbatim>\<open>(x, y, visibility)\<close> per detected
  person. A frame is represented by its shape \<open>(h, w)\<close>.
\<close>

type_synonym landmark = "real \<times> real \<times> real"

fun landmarks_to_keypoints :: "nat \<times> nat \<Rightarrow> landmark list \<Rightarrow> nat list \<Rightarrow> error + skeleton" where
  "landmarks_to_keypoints (h, w) landmarks [] = Inr []"
| "landmarks_to_keypoints (h, w) landmarks (mp_idx # rest) =
    (if length landmarks \<le> mp_idx then Inl IndexError
     else
       let lm = landmarks ! mp_idx
       in case landmarks_to_keypoints (h, w) landmarks rest of
            Inl e \<Rightarrow> Inl e
          | Inr keypoints \<Rightarrow> Inr ((kx lm * real w, ky lm * real h, kc lm) # keypoints))"

definition detect_keypoints :: "nat \<times> nat \<Rightarrow> landmark list list \<Rightarrow> error + skeleton option" where
  "detect_keypoints shape pose_landmarks =
    (case pose_landmarks of
       [] \<Rightarrow> Inr None
     | landmarks # _ \<Rightarrow>
        (case landmarks_to_keypoints shape landmarks MEDIAPIPE_INDICES of
           Inl e \<Rightarrow> Inl e
         | Inr keypoints \<Rightarrow> Inr (Some keypoints)))"

text \<open>One entry of the dictionary built by \<^verbatim>\<open>compute_joint_angles\<close>.\<close>

definition joint_angle :: "skeleton \<Rightarrow> nat \<times> nat \<times> nat \<Rightarrow> error + real option" where
  "joint_angle keypoints ijk =
    (case ijk of (i, j, k) \<Rightarrow>
      if length keypoints \<le> i \<or> length keypoints \<le> j \<or> length keypoints \<le> k
      then Inl IndexError
      else
        let p1 = keypoints ! i; p2 = keypoints ! j; p3 = keypoints ! k
        in if kc p1 < MIN_CONFIDENCE \<or> kc p2 < MIN_CONFIDENCE \<or> kc p3 < MIN_CONFIDENCE
           then Inr None
           else Inr (Some (py_round (compute_angle p1 p2 p3) 2)))"

fun joint_angles_loop :: "(string \<times> nat \<times> nat \<times> nat) list \<Rightarrow> skeleton \<Rightarrow> error + angle_dict" where
  "joint_angles_loop [] keypoints = Inr []"
| "joint_angles_loop ((name, ijk) # rest) keypoints =
    (case joint_angle keypoints ijk of
       Inl e \<Rightarrow> Inl e
     | Inr a \<Rightarrow>
        (case joint_angles_loop rest keypoints of
           Inl e \<Rightarrow> Inl e
         | Inr angles \<Rightarrow> Inr ((name, a) # angles)))"

definition compute_joint_angles :: "skeleton \<Rightarrow> error + angle_dict" where
  "compute_joint_angles keypoints = joint_angles_loop ANGLE_DEFINITIONS keypoints"

text \<open>
  \<^verbatim>\<open>smooth_pose\<close>. The engine's \<^verbatim>\<open>_prev_keypoints\<close> is the state: \<open>None\<close> before the first
  frame. The loop reads \<^verbatim>\<open>_prev_keypoints[i]\<close> only for a confident current keypoint, and
  raises IndexError when the previous skeleton is too short; the state is then unchanged.
\<close>

definition smooth_alpha :: real where
  "smooth_alpha = 6 / 10"

fun smooth_loop :: "skeleton \<Rightarrow> skeleton \<Rightarrow> error + skeleton" where
  "smooth_loop prev [] = Inr []"
| "smooth_loop prev (cur # rest) =
    (if kc cur < MIN_CONFIDENCE then
       (case smooth_loop (tl prev) rest of
          Inl e \<Rightarrow> Inl e
        | Inr smoothed \<Rightarrow> Inr (cur # smoothed))
     else
       (case prev of
          [] \<Rightarrow> Inl IndexError
        | p # ps \<Rightarrow>
           (let alpha = smooth_alpha;
                sx = alpha * kx cur + (1 - alpha) * kx p;
                sy = alpha * ky cur + (1 - alpha) * ky p
            in case smooth_loop ps rest of
                 Inl e \<Rightarrow> Inl e
               | Inr smoothed \<Rightarrow> Inr ((sx, sy, kc cur) # smoothed))))"

definition smooth_pose :: "skeleton option \<Rightarrow> skeleton \<Rightarrow> error + (skeleton option \<times> skeleton)" where
  "smooth_pose prev_keypoints current =
    (case prev_keypoints of
       None \<Rightarrow> Inr (Some current, current)
     | Some prev \<Rightarrow>
        (case smooth_loop prev current of
           Inl e \<Rightarrow> Inl e
         | Inr smoothed \<Rightarrow> Inr (Some smoothed, smoothed)))"

section \<open>Feedback (\<^verbatim>\<open>feedback.py\<close>)\<close>

text \<open>\<^verbatim>\<open>ANGLE_ISSUE_MESSAGES\<close>: per joint, the pair (too_small, too_large).\<close>

definition ANGLE_ISSUE_MESSAGES :: "(string \<times> string \<times> string) list" where
  "ANGLE_ISSUE_MESSAGES =
    [(''left_elbow'', ''Left elbow bent too much'', ''Left elbow not bent enough''),
     (''right_elbow'', ''Right elbow bent too much'', ''Right elbow not bent enough''),
     (''left_shoulder'', ''Left arm too close to body'', ''Left arm raised too high''),
     (''right_shoulder'', ''Right arm too close to body'', ''Right arm raised too high''),
     (''left_knee'', ''Left knee bent too much'', ''Left knee not bent enough''),
     (''right_knee'', ''Right knee bent too much'', ''Right knee not bent enough''),
     (''left_hip'', ''Left hip angle too narrow'', ''Left hip angle too wide''),
     (''right_hip'', ''Right hip angle too narrow'', ''Right hip angle too wide'')]"

definition GOOD_MESSAGES :: "(string \<times> string) list" where
  "GOOD_MESSAGES =
    [(''left_elbow'', ''Left elbow position correct''),
     (''right_elbow'', ''Right elbow position correct''),
     (''left_shoulder'', ''Left shoulder alignment correct''),
     (''right_shoulder'', ''Right shoulder alignment correct''),
     (''left_knee'', ''Left knee position correct''),
     (''right_knee'', ''Right knee position correct''),
     (''left_hip'', ''Left hip alignment correct''),
     (''right_hip'', ''Right hip alignment correct'')]"

definition ANGLE_TOLERANCE :: real where
  "ANGLE_TOLERANCE = 25"

record feedback =
  fb_similarity :: real
  fb_confidence :: real
  fb_issues :: "string list"
  fb_good :: "string list"

text \<open>
  The loop of \<^verbatim>\<open>generate_feedback\<close>, threading the two lists; a message dictionary without
  the joint's key raises KeyError.
\<close>

fun feedback_loop ::
  "string list \<Rightarrow> angle_dict \<Rightarrow> angle_dict \<Rightarrow> string list \<times> string list
     \<Rightarrow> error + (string list \<times> string list)" where
  "feedback_loop [] live_angles ref_angles (issues, good) = Inr (issues, good)"
| "feedback_loop (name # names) live_angles ref_angles (issues, good) =
    (case dict_get live_angles name of
       None \<Rightarrow> feedback_loop names live_angles ref_angles (issues, good)
     | Some live_val \<Rightarrow>
        (case dict_get ref_angles name of
           None \<Rightarrow> feedback_loop names live_angles ref_angles (issues, good)
         | Some ref_val \<Rightarrow>
            (let diff = live_val - ref_val
             in if \<bar>diff\<bar> \<le> ANGLE_TOLERANCE then
                  (case map_of GOOD_MESSAGES name of
                     None \<Rightarrow> Inl KeyError
                   | Some msg \<Rightarrow> feedback_loop names live_angles ref_angles (issues, good @ [msg]))
                else if diff < - ANGLE_TOLERANCE then
                  (case map_of ANGLE_ISSUE_MESSAGES name of
                     None \<Rightarrow> Inl KeyError
                   | Some (too_small, too_large) \<Rightarrow>
                       feedback_loop names live_angles ref_angles (issues @ [too_small], good))
                else
                  (case map_of ANGLE_ISSUE_MESSAGES name of
                     None \<Rightarrow> Inl KeyError
                   | Some (too_small, too_large) \<Rightarrow>
                       feedback_loop names live_angles ref_angles (issues @ [too_large], good)))))"

definition generate_feedback :: "angle_dict \<Rightarrow> angle_dict \<Rightarrow> real \<Rightarrow> real \<Rightarrow> error + feedback" where
  "generate_feedback live_angles ref_angles similarity confidence =
    (case feedback_loop ANGLE_NAMES live_angles ref_angles ([], []) of
       Inl e \<Rightarrow> Inl e
     | Inr (issues, good) \<Rightarrow>
         Inr \<lparr>fb_similarity = similarity,
              fb_confidence = py_round confidence 2,
              fb_issues = issues,
              fb_good = good\<rparr>)"

section \<open>Request handlers (\<^verbatim>\<open>websocket_handler.py\<close>, \<^verbatim>\<open>app.py\<close>)\<close>

text \<open>
  The reference table: per exercise label, the reference skeleton and reference angles
  (\<^verbatim>\<open>ref["keypoints"]\<close>, \<^verbatim>\<open>ref["angles"]\<close>).
\<close>

type_synonym references = "(string \<times> skeleton \<times> angle_dict) list"

definition mean_confidence :: "skeleton \<Rightarrow> real" where
  "mean_confidence keypoints =
    (let valid_confs = filter (\<lambda>c. MIN_CONFIDENCE \<le> c) (map kc keypoints)
     in if valid_confs = [] then 0 else np_mean valid_confs)"

text \<open>
  The list comprehension \<^verbatim>\<open>relative_kps\<close> of both handlers. \<^verbatim>\<open>h\<close> and \<^verbatim>\<open>w\<close> are Python
  ints, so a zero raises ZeroDivisionError at the first keypoint.
\<close>

definition relative_kps :: "nat \<times> nat \<Rightarrow> skeleton \<Rightarrow> error + keypoint list" where
  "relative_kps shape keypoints =
    (case shape of (h, w) \<Rightarrow>
      if keypoints \<noteq> [] \<and> (w = 0 \<or> h = 0) then Inl ZeroDivisionError
      else Inr (map (\<lambda>kp. (py_round (kx kp / real w) 5,
                            py_round (ky kp / real h) 5,
                            py_round (kc kp) 4))
                  keypoints))"

definition skeleton_color :: "real \<Rightarrow> string" where
  "skeleton_color similarity = (if 70 \<le> similarity then ''green'' else ''red'')"





subsection \<open>Single-image analysis\<close>

text \<open>The conditional expression \<^verbatim>\<open>round(v, 1) if v else None\<close>: \<^verbatim>\<open>None\<close> and \<^verbatim>\<open>0.0\<close> are falsy.\<close>

definition round_if_truthy :: "real option \<Rightarrow> real option" where
  "round_if_truthy v =
    (case v of
       None \<Rightarrow> None
     | Some a \<Rightarrow> if a \<noteq> 0 then Some (py_round a 1) else None)"

definition rendered_angles :: "angle_dict \<Rightarrow> angle_dict" where
  "rendered_angles angles = map (\<lambda>(k, v). (k, round_if_truthy v)) angles"

record deviation =
  dv_live :: real
  dv_reference :: real
  dv_deviation :: real
  dv_status :: string

definition angle_deviations :: "angle_dict \<Rightarrow> angle_dict \<Rightarrow> (string \<times> deviation) list" where
  "angle_deviations live_angles ref_angles =
    concat (map (\<lambda>(name, live_val).
        case (dict_get ref_angles name, live_val) of
          (Some ref_val, Some lv) \<Rightarrow>
            [(name, \<lparr>dv_live = py_round lv 1,
                     dv_reference = py_round ref_val 1,
                     dv_deviation = py_round \<bar>lv - ref_val\<bar> 1,
                     dv_status = (if \<bar>lv - ref_val\<bar> \<le> 25 then ''correct'' else ''incorrect'')\<rparr>)]
        | _ \<Rightarrow> [])
      live_angles)"

record analysis =
  an_exercise :: string
  an_similarity :: real
  an_keypoint_similarity :: real
  an_angle_similarity :: real
  an_confidence :: real
  an_skeleton_color :: string
  an_issues :: "string list"
  an_good :: "string list"
  an_keypoints :: "keypoint list"
  an_live_angles :: angle_dict
  an_reference_angles :: angle_dict
  an_angle_deviations :: "(string \<times> deviation) list"

text \<open>
  The responses of \<^verbatim>\<open>analyze_image\<close>: the two status-level errors, the fixed record of a
  frame without a pose, and the full analysis.
\<close>

datatype response =
    UnknownExercise string "string list"
  | UndecodableImage
  | NoPoseDetected
  | Analysed analysis

text \<open>
  \<^verbatim>\<open>analyze_image\<close>, from the lower-cased form field \<^verbatim>\<open>exercise\<close> on. The decoded frame is
  its shape, or \<open>None\<close> when the upload does not decode.
\<close>

definition analyze_image ::
  "references \<Rightarrow> string \<Rightarrow> (nat \<times> nat) option \<Rightarrow> landmark list list \<Rightarrow> error + response" where
  "analyze_image refs exercise frame pose_landmarks =
    (case map_of refs exercise of
       None \<Rightarrow> Inr (UnknownExercise exercise (map fst refs))
     | Some (ref_kps, ref_angles) \<Rightarrow>
        (case frame of
           None \<Rightarrow> Inr UndecodableImage
         | Some shape \<Rightarrow>
            (case detect_keypoints shape pose_landmarks of
               Inl e \<Rightarrow> Inl e
             | Inr None \<Rightarrow> Inr NoPoseDetected
             | Inr (Some keypoints) \<Rightarrow>
                (case compute_joint_angles keypoints of
                   Inl e \<Rightarrow> Inl e
                 | Inr live_angles \<Rightarrow>
                (case normalize_keypoints keypoints of
                   Inl e \<Rightarrow> Inl e
                 | Inr live_normalized \<Rightarrow>
                (case compute_keypoint_similarity live_normalized ref_kps of
                   Inl e \<Rightarrow> Inl e
                 | Inr kp_score \<Rightarrow>
                (case compute_similarity live_normalized ref_kps live_angles ref_angles of
                   Inl e \<Rightarrow> Inl e
                 | Inr overall_similarity \<Rightarrow>
                (case generate_feedback live_angles ref_angles overall_similarity
                        (mean_confidence keypoints) of
                   Inl e \<Rightarrow> Inl e
                 | Inr fb \<Rightarrow>
                (case relative_kps shape keypoints of
                   Inl e \<Rightarrow> Inl e
                 | Inr rel \<Rightarrow>
                    Inr (Analysed
                      \<lparr>an_exercise = exercise,
                       an_similarity = overall_similarity,
                       an_keypoint_similarity = py_round kp_score 1,
                       an_angle_similarity =
                         py_round (compute_angle_similarity live_angles ref_angles) 1,
                       an_confidence = py_round (mean_confidence keypoints) 2,
                       an_skeleton_color = skeleton_color overall_similarity,
                       an_issues = fb_issues fb,
                       an_good = fb_good fb,
                       an_keypoints = rel,
                       an_live_angles = rendered_angles live_angles,
                       an_reference_angles = rendered_angles ref_angles,
                       an_angle_deviations = angle_deviations live_angles ref_angles\<rparr>))))))))))"

section \<open>Notions of the specification\<close>

text \<open>
  The angle curve as the specification words it: \<open>d \<le> 15 \<rightarrow> 100\<close>,
  \<open>15 < d \<le> 30 \<rightarrow> 100 - (d - 15) \<cdot> 2\<close>, \<open>30 < d \<le> 60 \<rightarrow> 70 - (d - 30) \<cdot> (40/30)\<close>,
  \<open>d > 60 \<rightarrow> max(0, 30 - (d - 60))\<close>.
\<close>

definition spec_angle_curve :: "real \<Rightarrow> real" where
  "spec_angle_curve d =
    (if d \<le> 15 then 100
     else if 15 < d \<and> d \<le> 30 then 100 - (d - 15) * 2
     else if 30 < d \<and> d \<le> 60 then 70 - (d - 30) * (40 / 30)
     else max 0 (30 - (d - 60)))"

text \<open>The joints where both the live and the reference angle are defined.\<close>

definition comparable_joints :: "angle_dict \<Rightarrow> angle_dict \<Rightarrow> string list" where
  "comparable_joints live_angles ref_angles =
    filter (\<lambda>name. dict_get live_angles name \<noteq> None \<and> dict_get ref_angles name \<noteq> None)
      ANGLE_NAMES"

text \<open>The keypoints where both the live and the reference confidence meet the threshold.\<close>

definition jointly_confident :: "skeleton \<Rightarrow> skeleton \<Rightarrow> nat set" where
  "jointly_confident live refk =
    {i. i < length live \<and> MIN_CONFIDENCE \<le> kc (live ! i) \<and> MIN_CONFIDENCE \<le> kc (refk ! i)}"

text \<open>
  A rigid translation by \<open>(tx, ty)\<close> after a uniform scaling by \<open>s\<close>, applied to the raw
  coordinates of every keypoint; confidences are untouched.
\<close>

definition similarity_transform :: "real \<Rightarrow> real \<Rightarrow> real \<Rightarrow> skeleton \<Rightarrow> skeleton" where
  "similarity_transform s tx ty keypoints =
    map (\<lambda>kp. (s * kx kp + tx, s * ky kp + ty, kc kp)) keypoints"

text \<open>
  The signed difference \<open>live - reference\<close> of a joint, when both angles are defined, and
  the three messages of a joint, read from the two message tables.
\<close>

definition joint_diff :: "angle_dict \<Rightarrow> angle_dict \<Rightarrow> string \<Rightarrow> real option" where
  "joint_diff live_angles ref_angles name =
    (case (dict_get live_angles name, dict_get ref_angles name) of
       (Some live_val, Some ref_val) \<Rightarrow> Some (live_val - ref_val)
     | _ \<Rightarrow> None)"

definition good_message :: "string \<Rightarrow> string" where
  "good_message name = the (map_of GOOD_MESSAGES name)"

definition too_small_message :: "string \<Rightarrow> string" where
  "too_small_message name = fst (the (map_of ANGLE_ISSUE_MESSAGES name))"

definition too_large_message :: "string \<Rightarrow> string" where
  "too_large_message name = snd (the (map_of ANGLE_ISSUE_MESSAGES name))"

text \<open>What one joint contributes to the list of positive messages and to the list of issues.\<close>

definition good_of :: "angle_dict \<Rightarrow> angle_dict \<Rightarrow> string \<Rightarrow> string list" where
  "good_of live_angles ref_angles name =
    (case joint_diff live_angles ref_angles name of
       None \<Rightarrow> []
     | Some diff \<Rightarrow> if \<bar>diff\<bar> \<le> 25 then [good_message name] else [])"

definition issues_of :: "angle_dict \<Rightarrow> angle_dict \<Rightarrow> string \<Rightarrow> string list" where
  "issues_of live_angles ref_angles name =
    (case joint_diff live_angles ref_angles name of
       None \<Rightarrow> []
     | Some diff \<Rightarrow>
         if diff < - 25 then [too_small_message name]
         else if 25 < diff then [too_large_message name]
         else [])"

section \<open>Rounding\<close>

lemma round_half_even_of_int: "round_half_even (of_int k) = k"
  by (simp add: round_half_even_def)

lemma round_half_even_close: "\<bar>of_int (round_half_even x) - x\<bar> \<le> 1 / 2"
  unfolding round_half_even_def Let_def by (auto split: if_splits)

lemma round_half_even_ge:
  assumes "of_int k \<le> x" shows "k \<le> round_half_even x"
proof -
  have "k \<le> \<lfloor>x\<rfloor>" using assms by (simp add: le_floor_iff)
  then show ?thesis unfolding round_half_even_def Let_def by auto
qed

lemma round_half_even_le: "x \<le> of_int k \<Longrightarrow> round_half_even x \<le> k"
  unfolding round_half_even_def Let_def
  apply (auto split: if_splits)
  apply linarith+
  done

lemma py_round_ge: "of_int k / 10 ^ n \<le> x \<Longrightarrow> of_int k / 10 ^ n \<le> py_round x n"
  unfolding py_round_def
  by (simp add: divide_le_cancel pos_divide_le_eq round_half_even_ge)

lemma py_round_le: "x \<le> of_int k / 10 ^ n \<Longrightarrow> py_round x n \<le> of_int k / 10 ^ n"
  unfolding py_round_def
  by (simp add: divide_le_cancel pos_le_divide_eq round_half_even_le)

lemma py_round_exact: "py_round (of_int k / 10 ^ n) n = of_int k / 10 ^ n"
  unfolding py_round_def by (simp add: round_half_even_of_int)

lemma py_round_close: "\<bar>py_round x n - x\<bar> \<le> 1 / (2 * 10 ^ n)"
proof -
  define r where "r = real_of_int (round_half_even (x * 10 ^ n))"
  have "\<bar>r - x * 10 ^ n\<bar> \<le> 1 / 2"
    unfolding r_def by (rule round_half_even_close)
  then have "\<bar>r - x * 10 ^ n\<bar> / 10 ^ n \<le> (1 / 2) / 10 ^ n"
    by (rule divide_right_mono) simp
  moreover have "r / 10 ^ n - x = (r - x * 10 ^ n) / 10 ^ n"
    by (simp add: diff_divide_distrib)
  then have "\<bar>r - x * 10 ^ n\<bar> / 10 ^ n = \<bar>r / 10 ^ n - x\<bar>"
    by (simp only: abs_divide) simp
  ultimately show ?thesis unfolding py_round_def r_def by simp
qed

lemma py_round_0: "py_round 0 n = 0"
  using py_round_exact[of 0 n] by simp


section \<open>The similarity score\<close>

lemma count_true_map: "length (filter (\<lambda>b. b) (map P xs)) = length (filter P xs)"
  by (induction xs) auto

lemma compute_keypoint_similarity_eq:
  assumes "length live = length refk" and "live \<noteq> []"
  shows "compute_keypoint_similarity live refk =
    Inr (if length (masked_pairs live refk) < 3 then 50
         else np_mean (map (\<lambda>(l, r). exp (- 2 * point_distance l r)) (masked_pairs live refk)) * 100)"
proof -
  from assms have "refk \<noteq> []" by auto
  with assms have m: "confidence_mask live refk =
      Inr (map (\<lambda>(l, r). MIN_CONFIDENCE \<le> kc l \<and> MIN_CONFIDENCE \<le> kc r) (zip live refk))"
    by (simp add: confidence_mask_def)
  show ?thesis
    unfolding compute_keypoint_similarity_def m
    by (simp add: count_true_map masked_pairs_def assms Let_def comp_def case_prod_unfold)
qed

lemma np_mean_bounds:
  assumes "xs \<noteq> []" and "\<And>x. x \<in> set xs \<Longrightarrow> lo \<le> x \<and> x \<le> hi"
  shows "lo \<le> np_mean xs \<and> np_mean xs \<le> hi"
proof -
  have n: "0 < real (length xs)" using assms(1) by simp
  have "sum_list (map (\<lambda>_. lo) xs) \<le> sum_list (map (\<lambda>x. x) xs)"
    by (rule sum_list_mono) (use assms(2) in auto)
  then have lo: "real (length xs) * lo \<le> sum_list xs" by (simp add: sum_list_triv)
  have "sum_list (map (\<lambda>x. x) xs) \<le> sum_list (map (\<lambda>_. hi) xs)"
    by (rule sum_list_mono) (use assms(2) in auto)
  then have hi: "sum_list xs \<le> real (length xs) * hi" by (simp add: sum_list_triv)
  show ?thesis unfolding np_mean_def using lo hi n
    by (simp add: pos_le_divide_eq pos_divide_le_eq mult.commute)
qed

lemma compute_keypoint_similarity_range:
  assumes "length live = length refk" and "live \<noteq> []"
  shows "\<exists>p. compute_keypoint_similarity live refk = Inr p \<and> 0 \<le> p \<and> p \<le> 100"
proof (cases "length (masked_pairs live refk) < 3")
  case True
  then show ?thesis by (simp add: compute_keypoint_similarity_eq[OF assms])
next
  case False
  let ?xs = "map (\<lambda>(l, r). exp (- 2 * point_distance l r)) (masked_pairs live refk)"
  have ne: "?xs \<noteq> []" using False by auto
  have "\<And>x. x \<in> set ?xs \<Longrightarrow> 0 \<le> x \<and> x \<le> 1"
    by (auto simp: point_distance_def)
  from np_mean_bounds[OF ne this] have "0 \<le> np_mean ?xs \<and> np_mean ?xs \<le> 1" by simp
  then show ?thesis using False by (simp add: compute_keypoint_similarity_eq[OF assms])
qed

lemma final_score_range: "0 \<le> final_score p a \<and> final_score p a \<le> 100"
proof -
  let ?c = "max 0 (min 100 (0.25 * p + 0.75 * a))"
  have "0 \<le> ?c" "?c \<le> 100" by auto
  then have "0 \<le> py_round ?c 1" "py_round ?c 1 \<le> 100"
    using py_round_ge[of 0 1 ?c] py_round_le[of ?c 1000 1] by simp_all
  then show ?thesis by (simp add: final_score_def Let_def)
qed

text \<open>
  Claim C1. For skeletons of equal, non-zero length (17 in the pipeline) the positional
  sub-score is returned, and the final score is \<open>0.25 \<cdot> positional + 0.75 \<cdot> angle\<close>, clamped
  to \<open>[0, 100]\<close> and rounded to one decimal. The blend of sub-scores 0 and 0 is 0, that of
  100 and 100 is 100; whatever the sub-scores, the result lies in \<open>[0, 100]\<close>, is a multiple
  of \<open>0.1\<close> and is within \<open>0.05\<close> of the clamped blend.
\<close>

theorem compute_similarity_final_score:
  assumes "length live_kps = length ref_kps" and "live_kps \<noteq> []"
  shows "\<exists>kp_score.
      compute_keypoint_similarity live_kps ref_kps = Inr kp_score
    \<and> compute_similarity live_kps ref_kps live_angles ref_angles =
        Inr (py_round (max 0 (min 100
               (0.25 * kp_score + 0.75 * compute_angle_similarity live_angles ref_angles))) 1)
    \<and> final_score 0 0 = 0
    \<and> final_score 100 100 = 100
    \<and> (\<forall>p a. 0 \<le> final_score p a \<and> final_score p a \<le> 100
          \<and> \<bar>final_score p a - max 0 (min 100 (0.25 * p + 0.75 * a))\<bar> \<le> 1 / 20
          \<and> (\<exists>n::int. final_score p a = of_int n / 10))"
proof -
  from compute_keypoint_similarity_range[OF assms] obtain kp where
    kp: "compute_keypoint_similarity live_kps ref_kps = Inr kp" by blast
  have a: "compute_similarity live_kps ref_kps live_angles ref_angles =
        Inr (py_round (max 0 (min 100
               (0.25 * kp + 0.75 * compute_angle_similarity live_angles ref_angles))) 1)"
    by (simp add: compute_similarity_def kp final_score_def)
  have z: "final_score 0 0 = 0" by (simp add: final_score_def py_round_0)
  have h: "final_score 100 100 = 100"
    using py_round_exact[of 1000 1] by (simp add: final_score_def)
  have g: "\<bar>final_score p a - max 0 (min 100 (0.25 * p + 0.75 * a))\<bar> \<le> 1 / 20" for p a
    using py_round_close[of "max 0 (min 100 (0.25 * p + 0.75 * a))" 1]
    by (simp add: final_score_def Let_def)
  have d: "\<exists>n::int. final_score p a = of_int n / 10" for p a
    by (auto simp: final_score_def Let_def py_round_def)
  show ?thesis using kp a z h g d final_score_range by blast
qed

text \<open>
  For two equal skeletons of 17 confident keypoints and no comparable angle the score is
  \<open>0.25 \<cdot> 100 + 0.75 \<cdot> 50 = 62.5\<close>.
\<close>

theorem compute_similarity_final_score_witness:
  "length (replicate 17 (0, 0, 1) :: skeleton) = length (replicate 17 (0, 0, 1) :: skeleton)
   \<and> (replicate 17 (0, 0, 1) :: skeleton) \<noteq> []
   \<and> compute_similarity (replicate 17 (0, 0, 1)) (replicate 17 (0, 0, 1)) [] [] = Inr 62.5"
  using compute_similarity_final_score[of "replicate 17 (0, 0, 1)" "replicate 17 (0, 0, 1)" "[]" "[]"]
  by (simp add: compute_keypoint_similarity_eq masked_pairs_def MIN_CONFIDENCE_def
      point_distance_def np_mean_def compute_angle_similarity_def ANGLE_NAMES_def
      ANGLE_DEFINITIONS_def dict_get_def sum_list_replicate py_round_def round_half_even_def)

lemma angle_scores_eq:
  "angle_scores names la ra =
    map (\<lambda>name. diff_score \<bar>the (dict_get la name) - the (dict_get ra name)\<bar>)
      (filter (\<lambda>name. dict_get la name \<noteq> None \<and> dict_get ra name \<noteq> None) names)"
  by (induction names) (auto split: option.splits)

lemma diff_score_spec: "diff_score d = spec_angle_curve d"
  by (simp add: diff_score_def spec_angle_curve_def)

lemma diff_score_nonneg: "0 \<le> diff_score d"
  by (simp add: diff_score_def)

lemma diff_score_le: "diff_score d \<le> 100"
  unfolding diff_score_def by (auto simp: max_def; argo)

lemma diff_score_lipschitz: "\<bar>diff_score a - diff_score b\<bar> \<le> 2 * \<bar>a - b\<bar>"
proof -
  consider "a \<le> 15" | "15 < a" "a \<le> 30" | "30 < a" "a \<le> 60" | "60 < a" "a \<le> 90" | "90 < a"
    by linarith
  then show ?thesis
  proof cases
    case 1 then show ?thesis unfolding diff_score_def by (auto simp: max_def; argo)
  next
    case 2 then show ?thesis unfolding diff_score_def by (auto simp: max_def; argo)
  next
    case 3 then show ?thesis unfolding diff_score_def by (auto simp: max_def; argo)
  next
    case 4 then show ?thesis unfolding diff_score_def by (auto simp: max_def; argo)
  next
    case 5 then show ?thesis unfolding diff_score_def by (auto simp: max_def; argo)
  qed
qed

lemma diff_score_continuous: "continuous_on UNIV diff_score"
proof (rule continuous_at_imp_continuous_on, rule ballI)
  fix x :: real
  show "isCont diff_score x"
    unfolding isCont_def LIM_def dist_real_def
  proof (intro allI impI)
    fix e :: real
    assume "0 < e"
    have "\<forall>x'. x' \<noteq> x \<and> \<bar>x' - x\<bar> < e / 2 \<longrightarrow> \<bar>diff_score x' - diff_score x\<bar> < e"
    proof (intro allI impI)
      fix x' :: real assume "x' \<noteq> x \<and> \<bar>x' - x\<bar> < e / 2"
      then have "\<bar>x' - x\<bar> < e / 2" by simp
      with diff_score_lipschitz[of x' x] show "\<bar>diff_score x' - diff_score x\<bar> < e" by argo
    qed
    with \<open>0 < e\<close>
    show "\<exists>s>0. \<forall>x'. x' \<noteq> x \<and> \<bar>x' - x\<bar> < s \<longrightarrow> \<bar>diff_score x' - diff_score x\<bar> < e"
      by (intro exI[of _ "e / 2"]) simp
  qed
qed

text \<open>
  Claim C2. The angle sub-score is the mean, over the joints where both angles are defined,
  of the specification's piecewise curve at the absolute difference, and 50 when no joint
  is comparable. The curve of the code is the curve of the specification; it takes the
  values 100, 70, 30, 15 and 0 at 15, 30, 60, 75 and 90, is never negative and is
  continuous.
\<close>

theorem compute_angle_similarity_curve:
  "compute_angle_similarity live_angles ref_angles =
     (if comparable_joints live_angles ref_angles = [] then 50
      else (\<Sum>name\<leftarrow>comparable_joints live_angles ref_angles.
              spec_angle_curve \<bar>the (dict_get live_angles name) - the (dict_get ref_angles name)\<bar>)
           / real (length (comparable_joints live_angles ref_angles)))
   \<and> (\<forall>d. diff_score d = spec_angle_curve d)
   \<and> diff_score 15 = 100 \<and> diff_score 30 = 70 \<and> diff_score 60 = 30
   \<and> diff_score 75 = 15 \<and> diff_score 90 = 0
   \<and> (\<forall>d. 0 \<le> diff_score d)
   \<and> continuous_on UNIV diff_score"
proof -
  have "compute_angle_similarity live_angles ref_angles =
     (if comparable_joints live_angles ref_angles = [] then 50
      else (\<Sum>name\<leftarrow>comparable_joints live_angles ref_angles.
              spec_angle_curve \<bar>the (dict_get live_angles name) - the (dict_get ref_angles name)\<bar>)
           / real (length (comparable_joints live_angles ref_angles)))"
    by (simp add: compute_angle_similarity_def angle_scores_eq comparable_joints_def
        np_mean_def Let_def comp_def diff_score_spec)
  moreover have "diff_score 15 = 100" "diff_score 30 = 70" "diff_score 60 = 30"
    "diff_score 75 = 15" "diff_score 90 = 0"
    by (simp_all add: diff_score_def)
  ultimately show ?thesis
    using diff_score_spec diff_score_nonneg diff_score_continuous by blast
qed

text \<open>Live \<open>left_elbow = 100\<close> against reference 80: the score is \<open>100 - (20 - 15) \<cdot> 2 = 90\<close>.\<close>

lemma left_elbow_scenario:
  "compute_angle_similarity [(''left_elbow'', Some 100)] [(''left_elbow'', Some 80)] = 90"
  by (simp add: compute_angle_similarity_def ANGLE_NAMES_def ANGLE_DEFINITIONS_def
      dict_get_def diff_score_def np_mean_def)

lemma zip_as_map_upt:
  "length xs = length ys \<Longrightarrow> zip xs ys = map (\<lambda>i. (xs ! i, ys ! i)) [0..<length xs]"
  by (rule nth_equalityI) simp_all

lemma sum_list_filter_zip:
  assumes "length xs = length ys"
  shows "sum_list (map f (filter P (zip xs ys))) =
         (\<Sum>i\<in>{i. i < length xs \<and> P (xs ! i, ys ! i)}. f (xs ! i, ys ! i))"
proof -
  have "sum_list (map f (filter P (zip xs ys))) =
        sum_list (map (\<lambda>i. f (xs ! i, ys ! i)) (filter (\<lambda>i. P (xs ! i, ys ! i)) [0..<length xs]))"
    by (subst zip_as_map_upt[OF assms]) (simp only: filter_map comp_def map_map length_map)
  also have "\<dots> = (\<Sum>i\<in>set (filter (\<lambda>i. P (xs ! i, ys ! i)) [0..<length xs]). f (xs ! i, ys ! i))"
    by (rule sum_list_distinct_conv_sum_set) simp
  also have "set (filter (\<lambda>i. P (xs ! i, ys ! i)) [0..<length xs]) =
             {i. i < length xs \<and> P (xs ! i, ys ! i)}" by auto
  finally show ?thesis .
qed

lemma length_filter_zip:
  assumes "length xs = length ys"
  shows "length (filter P (zip xs ys)) = card {i. i < length xs \<and> P (xs ! i, ys ! i)}"
proof -
  have "length (filter P (zip xs ys)) =
        length (filter (\<lambda>i. P (xs ! i, ys ! i)) [0..<length xs])"
    by (subst zip_as_map_upt[OF assms]) (simp only: filter_map comp_def map_map length_map)
  also have "\<dots> = card (set (filter (\<lambda>i. P (xs ! i, ys ! i)) [0..<length xs]))"
    by (rule distinct_card[symmetric]) simp
  also have "set (filter (\<lambda>i. P (xs ! i, ys ! i)) [0..<length xs]) =
             {i. i < length xs \<and> P (xs ! i, ys ! i)}" by auto
  finally show ?thesis .
qed

text \<open>
  Claim C3. For skeletons of equal, non-zero length the positional sub-score is exactly 50
  when fewer than 3 keypoints are jointly confident, and otherwise 100 times the mean, over
  the jointly confident keypoints, of \<open>exp (- 2 \<cdot> d)\<close> with \<open>d\<close> the Euclidean distance of the
  live and the reference keypoint.
\<close>

theorem compute_keypoint_similarity_spec:
  assumes "length live = length refk" and "live \<noteq> []"
  shows "compute_keypoint_similarity live refk =
    Inr (if card (jointly_confident live refk) < 3 then 50
         else 100 * ((\<Sum>i\<in>jointly_confident live refk.
                        exp (- 2 * sqrt ((kx (live ! i) - kx (refk ! i))\<^sup>2
                                        + (ky (live ! i) - ky (refk ! i))\<^sup>2)))
                     / real (card (jointly_confident live refk))))"
proof -
  let ?P = "\<lambda>(l, r). MIN_CONFIDENCE \<le> kc l \<and> MIN_CONFIDENCE \<le> kc r"
  let ?f = "\<lambda>(l, r). exp (- 2 * point_distance l r)"
  have c: "length (masked_pairs live refk) = card (jointly_confident live refk)"
    unfolding masked_pairs_def jointly_confident_def
    using length_filter_zip[OF assms(1), of ?P] by simp
  have s: "sum_list (map ?f (masked_pairs live refk)) =
        (\<Sum>i\<in>jointly_confident live refk.
            exp (- 2 * sqrt ((kx (live ! i) - kx (refk ! i))\<^sup>2 + (ky (live ! i) - ky (refk ! i))\<^sup>2)))"
    unfolding masked_pairs_def jointly_confident_def
    using sum_list_filter_zip[OF assms(1), of ?f ?P] by (simp add: point_distance_def)
  show ?thesis
    using s c by (simp add: compute_keypoint_similarity_eq[OF assms] np_mean_def)
qed

lemma jointly_confident_replicate:
  "MIN_CONFIDENCE \<le> kc p \<Longrightarrow> MIN_CONFIDENCE \<le> kc q \<Longrightarrow>
   jointly_confident (replicate n p) (replicate n q) = {i. i < n}"
  unfolding jointly_confident_def by auto

text \<open>
  Seventeen coincident confident keypoints score 100; seventeen keypoints of confidence 0
  leave no jointly confident keypoint and score 50.
\<close>

theorem compute_keypoint_similarity_spec_witness:
  "length (replicate 17 (0, 0, 1) :: skeleton) = length (replicate 17 (0, 0, 1) :: skeleton)
   \<and> (replicate 17 (0, 0, 1) :: skeleton) \<noteq> []
   \<and> compute_keypoint_similarity (replicate 17 (0, 0, 1)) (replicate 17 (0, 0, 1)) = Inr 100
   \<and> compute_keypoint_similarity (replicate 17 (0, 0, 0)) (replicate 17 (0, 0, 0)) = Inr 50"
proof -
  have a: "jointly_confident (replicate 17 (0, 0, 1)) (replicate 17 (0, 0, 1)) = {i. i < 17}"
    by (rule jointly_confident_replicate) (simp_all add: MIN_CONFIDENCE_def)
  have b: "jointly_confident (replicate 17 (0, 0, 0)) (replicate 17 (0, 0, 0)) = {}"
    unfolding jointly_confident_def by (auto simp: MIN_CONFIDENCE_def)
  show ?thesis
    using compute_keypoint_similarity_spec[of "replicate 17 (0, 0, 1)" "replicate 17 (0, 0, 1)"]
      compute_keypoint_similarity_spec[of "replicate 17 (0, 0, 0)" "replicate 17 (0, 0, 0)"]
    by (simp add: a b)
qed

section \<open>Joint angles\<close>

lemma np_clip_range: "- 1 \<le> np_clip a (- 1) 1 \<and> np_clip a (- 1) 1 \<le> 1"
  by (simp add: np_clip_def)

lemma np_degrees_range:
  assumes "0 \<le> a" and "a \<le> pi"
  shows "0 \<le> np_degrees a \<and> np_degrees a \<le> 180"
proof -
  have "a * 180 / pi \<le> 180" using assms pi_gt_zero by (simp add: pos_divide_le_eq)
  moreover have "0 \<le> a * 180 / pi" using assms pi_gt_zero by simp
  ultimately show ?thesis by (simp add: np_degrees_def)
qed

lemma compute_angle_range: "0 \<le> compute_angle p1 p2 p3 \<and> compute_angle p1 p2 p3 \<le> 180"
proof -
  have "0 \<le> np_degrees (arccos (np_clip c (- 1) 1))
      \<and> np_degrees (arccos (np_clip c (- 1) 1)) \<le> 180" for c
    using np_clip_range[of c] by (intro np_degrees_range arccos_lbound arccos_ubound) simp_all
  then show ?thesis by (simp add: compute_angle_def Let_def)
qed

lemma compute_angle_degenerate:
  "point_distance p1 p2 < 1 / 10 ^ 8 \<or> point_distance p3 p2 < 1 / 10 ^ 8
     \<Longrightarrow> compute_angle p1 p2 p3 = 0"
  by (auto simp: compute_angle_def point_distance_def Let_def)

lemma compute_angle_right_angle: "compute_angle (1, 0, 1) (0, 0, 1) (0, 1, 1) = 90"
  by (simp add: compute_angle_def np_clip_def np_degrees_def)

lemma joint_angle_eq:
  assumes "i < length kps" "j < length kps" "k < length kps"
  shows "joint_angle kps (i, j, k) =
    Inr (if kc (kps ! i) < MIN_CONFIDENCE \<or> kc (kps ! j) < MIN_CONFIDENCE \<or> kc (kps ! k) < MIN_CONFIDENCE
         then None else Some (py_round (compute_angle (kps ! i) (kps ! j) (kps ! k)) 2))"
  using assms by (simp add: joint_angle_def Let_def)

lemma joint_angles_loop_total:
  assumes "\<forall>(n, i, j, k) \<in> set defs. i < length kps \<and> j < length kps \<and> k < length kps"
  shows "\<exists>angles. joint_angles_loop defs kps = Inr angles \<and> map fst angles = map fst defs"
  using assms
proof (induction defs)
  case Nil
  then show ?case by simp
next
  case (Cons d defs)
  obtain n i j k where d: "d = (n, i, j, k)" by (cases d) auto
  from Cons.prems d have ok: "i < length kps" "j < length kps" "k < length kps" by auto
  from joint_angle_eq[OF ok] obtain a0 where a0: "joint_angle kps (i, j, k) = Inr a0" by blast
  from Cons obtain rest where "joint_angles_loop defs kps = Inr rest" "map fst rest = map fst defs"
    by auto
  then show ?case using d a0 by simp
qed

lemma joint_angles_loop_lookup:
  assumes "distinct (map fst defs)" and "(name, ijk) \<in> set defs"
    and "\<forall>(n, i, j, k) \<in> set defs. i < length kps \<and> j < length kps \<and> k < length kps"
  shows "\<exists>angles a. joint_angles_loop defs kps = Inr angles \<and> map fst angles = map fst defs
           \<and> joint_angle kps ijk = Inr a \<and> map_of angles name = Some a"
  using assms
proof (induction defs)
  case Nil
  then show ?case by simp
next
  case (Cons d defs)
  obtain n i j k where d: "d = (n, i, j, k)" by (cases d) auto
  from Cons.prems(3) d have ok: "i < length kps" "j < length kps" "k < length kps" by auto
  from joint_angle_eq[OF ok] obtain a0 where a0: "joint_angle kps (i, j, k) = Inr a0" by blast
  from Cons.prems(3) have rest_ok:
    "\<forall>(n, i, j, k) \<in> set defs. i < length kps \<and> j < length kps \<and> k < length kps" by simp
  show ?case
  proof (cases "name = n")
    case True
    with Cons.prems(1,2) d have ijk: "ijk = (i, j, k)" by (auto simp: rev_image_eqI)
    from joint_angles_loop_total[OF rest_ok] obtain rest where
      "joint_angles_loop defs kps = Inr rest" "map fst rest = map fst defs" by blast
    then show ?thesis using True d a0 ijk by simp
  next
    case False
    with Cons.prems d have "(name, ijk) \<in> set defs" "distinct (map fst defs)" by auto
    from Cons.IH[OF this(2,1) rest_ok] obtain angles a where
      "joint_angles_loop defs kps = Inr angles" "map fst angles = map fst defs"
      "joint_angle kps ijk = Inr a" "map_of angles name = Some a" by blast
    then show ?thesis using False d a0 by simp
  qed
qed

lemma ANGLE_DEFINITIONS_indices:
  "\<forall>(n, i, j, k) \<in> set ANGLE_DEFINITIONS. i < 17 \<and> j < 17 \<and> k < 17"
  by (simp add: ANGLE_DEFINITIONS_def)

lemma ANGLE_DEFINITIONS_distinct: "distinct (map fst ANGLE_DEFINITIONS)"
  by (simp add: ANGLE_DEFINITIONS_def)

lemma compute_joint_angles_total:
  assumes "17 \<le> length keypoints"
  shows "\<exists>angles. compute_joint_angles keypoints = Inr angles \<and> map fst angles = ANGLE_NAMES"
  unfolding compute_joint_angles_def ANGLE_NAMES_def
  by (rule joint_angles_loop_total) (use assms ANGLE_DEFINITIONS_indices in force)

text \<open>
  Claim C4. For a skeleton of 17 keypoints and each of the 8 joints \<open>(name, i, j, k)\<close>, the
  angle dictionary is returned with the 8 names as keys; if one of the three keypoints has
  confidence below 0.3 the joint is bound to \<open>None\<close>; otherwise it is bound to a number in
  \<open>[0, 180]\<close>, which is exactly 0 when one of the two bone vectors has norm below \<open>1e-8\<close>.
\<close>

theorem compute_joint_angles_spec:
  assumes "length keypoints = 17" and "(name, i, j, k) \<in> set ANGLE_DEFINITIONS"
  shows "\<exists>angles. compute_joint_angles keypoints = Inr angles
    \<and> map fst angles = ANGLE_NAMES
    \<and> (if kc (keypoints ! i) < MIN_CONFIDENCE \<or> kc (keypoints ! j) < MIN_CONFIDENCE
          \<or> kc (keypoints ! k) < MIN_CONFIDENCE
       then map_of angles name = Some None \<and> dict_get angles name = None
       else \<exists>a. map_of angles name = Some (Some a) \<and> dict_get angles name = Some a
              \<and> 0 \<le> a \<and> a \<le> 180
              \<and> (point_distance (keypoints ! i) (keypoints ! j) < 1 / 10 ^ 8
                   \<or> point_distance (keypoints ! k) (keypoints ! j) < 1 / 10 ^ 8
                  \<longrightarrow> a = 0))"
proof -
  have idx: "\<forall>(n, i, j, k) \<in> set ANGLE_DEFINITIONS.
      i < length keypoints \<and> j < length keypoints \<and> k < length keypoints"
    using ANGLE_DEFINITIONS_indices assms(1) by simp
  from joint_angles_loop_lookup[OF ANGLE_DEFINITIONS_distinct assms(2) idx]
  obtain angles a where r: "compute_joint_angles keypoints = Inr angles"
    "map fst angles = ANGLE_NAMES" "joint_angle keypoints (i, j, k) = Inr a"
    "map_of angles name = Some a"
    unfolding compute_joint_angles_def ANGLE_NAMES_def by blast
  from idx assms(2) have ok: "i < length keypoints" "j < length keypoints" "k < length keypoints"
    by auto
  let ?ang = "compute_angle (keypoints ! i) (keypoints ! j) (keypoints ! k)"
  have rng: "0 \<le> py_round ?ang 2 \<and> py_round ?ang 2 \<le> 180"
    using compute_angle_range[of "keypoints ! i" "keypoints ! j" "keypoints ! k"]
      py_round_ge[of 0 2 ?ang] py_round_le[of ?ang 18000 2] by simp
  have deg: "point_distance (keypoints ! i) (keypoints ! j) < 1 / 10 ^ 8
        \<or> point_distance (keypoints ! k) (keypoints ! j) < 1 / 10 ^ 8 \<Longrightarrow> py_round ?ang 2 = 0"
    using compute_angle_degenerate[of "keypoints ! i" "keypoints ! j" "keypoints ! k"]
    by (simp add: py_round_0)
  show ?thesis
    using r rng deg unfolding joint_angle_eq[OF ok]
    by (auto simp: dict_get_def)
qed

text \<open>
  Seventeen coincident confident keypoints give the left elbow the angle 0; with
  confidence 0 everywhere the left elbow is bound to \<open>None\<close>.
\<close>

theorem compute_joint_angles_spec_witness:
  "length (replicate 17 (0, 0, 1) :: skeleton) = 17
   \<and> (''left_elbow'', 5, 7, 9) \<in> set ANGLE_DEFINITIONS
   \<and> (\<exists>angles. compute_joint_angles (replicate 17 (0, 0, 1)) = Inr angles
        \<and> map_of angles ''left_elbow'' = Some (Some 0))
   \<and> (\<exists>angles. compute_joint_angles (replicate 17 (0, 0, 0)) = Inr angles
        \<and> map_of angles ''left_elbow'' = Some None)"
  using compute_joint_angles_spec[of "replicate 17 (0, 0, 1)" "''left_elbow''" 5 7 9]
    compute_joint_angles_spec[of "replicate 17 (0, 0, 0)" "''left_elbow''" 5 7 9]
  by (auto simp: ANGLE_DEFINITIONS_def MIN_CONFIDENCE_def point_distance_def)

section \<open>Normalization\<close>

lemma torso_size_positive: "1 / 10 ^ 8 \<le> torso_size kps"
  by (simp add: torso_size_def Let_def)

lemma torso_size_eq:
  "torso_size kps =
     (if point_distance (kps ! 5) (kps ! 12) < 1 / 10 ^ 8 then 1
      else point_distance (kps ! 5) (kps ! 12))"
  by (simp add: torso_size_def point_distance_def Let_def)

text \<open>
  Claim C5. For a skeleton of 17 keypoints normalization returns 17 keypoints: each
  coordinate has the midpoint of the two hips (rows 11 and 12) subtracted and is divided
  by the torso scale. The torso scale is the distance from the left shoulder (row 5) to
  the right hip (row 12), or 1 when that distance is below \<open>1e-8\<close>, so the divisor is never
  below \<open>1e-8\<close>. The midpoint of the normalized hips is the origin and the 17 confidences
  are unchanged.
\<close>

theorem normalize_keypoints_spec:
  assumes "length keypoints = 17"
  shows "\<exists>out. normalize_keypoints keypoints = Inr out
    \<and> length out = 17
    \<and> (\<forall>n<17. out ! n =
          ((kx (keypoints ! n) - (kx (keypoints ! 11) + kx (keypoints ! 12)) / 2) / torso_size keypoints,
           (ky (keypoints ! n) - (ky (keypoints ! 11) + ky (keypoints ! 12)) / 2) / torso_size keypoints,
           kc (keypoints ! n)))
    \<and> torso_size keypoints =
         (if point_distance (keypoints ! 5) (keypoints ! 12) < 1 / 10 ^ 8 then 1
          else point_distance (keypoints ! 5) (keypoints ! 12))
    \<and> 1 / 10 ^ 8 \<le> torso_size keypoints
    \<and> (kx (out ! 11) + kx (out ! 12)) / 2 = 0
    \<and> (ky (out ! 11) + ky (out ! 12)) / 2 = 0
    \<and> map kc out = map kc keypoints"
proof -
  let ?out = "map (\<lambda>kp. ((kx kp - fst (torso_center keypoints)) / torso_size keypoints,
                        (ky kp - snd (torso_center keypoints)) / torso_size keypoints,
                        kc kp)) keypoints"
  have r: "normalize_keypoints keypoints = Inr ?out"
    using assms by (simp add: normalize_keypoints_def)
  have n: "\<forall>n<17. ?out ! n =
          ((kx (keypoints ! n) - (kx (keypoints ! 11) + kx (keypoints ! 12)) / 2) / torso_size keypoints,
           (ky (keypoints ! n) - (ky (keypoints ! 11) + ky (keypoints ! 12)) / 2) / torso_size keypoints,
           kc (keypoints ! n))"
    using assms by (simp add: torso_center_def Let_def)
  have s: "torso_size keypoints \<noteq> 0" using torso_size_positive[of keypoints] by auto
  have cx: "(kx (?out ! 11) + kx (?out ! 12)) / 2 = 0"
    using assms s by (simp add: torso_center_def Let_def field_simps)
  have cy: "(ky (?out ! 11) + ky (?out ! 12)) / 2 = 0"
    using assms s by (simp add: torso_center_def Let_def field_simps)
  have c: "map kc ?out = map kc keypoints" by (simp add: comp_def)
  show ?thesis
    using r n cx cy c torso_size_positive[of keypoints] torso_size_eq[of keypoints] assms
    by (intro exI[of _ ?out]) (simp only: length_map simp_thms)
qed

lemma point_distance_transform:
  assumes "0 < s"
  shows "point_distance (s * kx p + tx, s * ky p + ty, c) (s * kx q + tx, s * ky q + ty, c')
         = s * point_distance p q"
proof -
  have "(s * kx p + tx - (s * kx q + tx))\<^sup>2 + (s * ky p + ty - (s * ky q + ty))\<^sup>2
        = s\<^sup>2 * ((kx p - kx q)\<^sup>2 + (ky p - ky q)\<^sup>2)"
    by (simp add: power2_eq_square algebra_simps)
  then show ?thesis
    using assms by (simp add: point_distance_def real_sqrt_mult)
qed

lemma scale_cancel:
  fixes s :: real
  assumes "0 < s"
  shows "(s * x - s * c) / (s * d) = (x - c) / d"
proof -
  have "s * x - s * c = s * (x - c)" by (simp add: algebra_simps)
  then show ?thesis using assms by simp
qed

text \<open>
  Claim C8. For a skeleton of 17 keypoints, a scale \<open>s > 0\<close> and a translation \<open>(tx, ty)\<close>,
  when the shoulder-to-hip distance of the skeleton and of the transformed skeleton are
  both at least \<open>1e-8\<close>, normalizing the transformed skeleton gives the same result as
  normalizing the original one (exactly, in real arithmetic), and the confidences of the
  result are those of both inputs.
\<close>

theorem normalize_keypoints_invariant:
  assumes "length keypoints = 17" and "0 < s"
    and "1 / 10 ^ 8 \<le> point_distance (keypoints ! 5) (keypoints ! 12)"
    and "1 / 10 ^ 8 \<le> point_distance (similarity_transform s tx ty keypoints ! 5)
                                       (similarity_transform s tx ty keypoints ! 12)"
  shows "\<exists>out. normalize_keypoints keypoints = Inr out
     \<and> normalize_keypoints (similarity_transform s tx ty keypoints) = Inr out
     \<and> map kc out = map kc keypoints
     \<and> map kc out = map kc (similarity_transform s tx ty keypoints)"
proof -
  let ?T = "similarity_transform s tx ty keypoints"
  let ?d = "point_distance (keypoints ! 5) (keypoints ! 12)"
  have nth: "?T ! n = (s * kx (keypoints ! n) + tx, s * ky (keypoints ! n) + ty, kc (keypoints ! n))"
    if "n < 17" for n using that assms(1) by (simp add: similarity_transform_def)
  have dT: "point_distance (?T ! 5) (?T ! 12) = s * ?d"
    by (simp add: nth point_distance_transform[OF assms(2)])
  have sz: "torso_size keypoints = ?d" using assms(3) by (simp add: torso_size_eq)
  have szT: "torso_size ?T = s * ?d" using assms(4) dT by (simp add: torso_size_eq)
  have cT: "torso_center ?T = (s * fst (torso_center keypoints) + tx, s * snd (torso_center keypoints) + ty)"
    by (simp add: torso_center_def Let_def nth algebra_simps)
  have lenT: "length ?T = 17" using assms(1) by (simp add: similarity_transform_def)
  have "normalize_keypoints ?T =
      Inr (map (\<lambda>kp. ((kx kp - (s * fst (torso_center keypoints) + tx)) / (s * ?d),
                       (ky kp - (s * snd (torso_center keypoints) + ty)) / (s * ?d),
                       kc kp)) ?T)"
    using lenT by (simp add: normalize_keypoints_def szT cT)
  also have "\<dots> = Inr (map (\<lambda>kp. ((kx kp - fst (torso_center keypoints)) / ?d,
                       (ky kp - snd (torso_center keypoints)) / ?d,
                       kc kp)) keypoints)"
    by (simp add: similarity_transform_def comp_def scale_cancel[OF assms(2)])
  also have "\<dots> = normalize_keypoints keypoints"
    using assms(1) by (simp add: normalize_keypoints_def sz)
  finally have eq: "normalize_keypoints ?T = normalize_keypoints keypoints" .
  obtain out where o: "normalize_keypoints keypoints = Inr out"
    using assms(1) by (simp add: normalize_keypoints_def)
  then have "map kc out = map kc keypoints"
    using assms(1) by (auto simp: normalize_keypoints_def comp_def)
  moreover have "map kc ?T = map kc keypoints" by (simp add: similarity_transform_def comp_def)
  ultimately show ?thesis using o eq by auto
qed

text \<open>
  A skeleton whose left shoulder is at distance 1 from the right hip is divided by 1; a
  skeleton of 17 coincident keypoints has torso distance 0 and is divided by the
  substituted 1.
\<close>

theorem normalize_keypoints_spec_witness:
  "length (map (\<lambda>i. (if i = 5 then 1 else 0, 0, 1)) [0..<17] :: skeleton) = 17
   \<and> (\<exists>out. normalize_keypoints (map (\<lambda>i. (if i = 5 then 1 else 0, 0, 1)) [0..<17]) = Inr out
         \<and> out ! 5 = (1, 0, 1) \<and> out ! 11 = (0, 0, 1))
   \<and> (\<exists>out. normalize_keypoints (replicate 17 (3, 4, 1)) = Inr out
         \<and> out ! 5 = (0, 0, 1) \<and> torso_size (replicate 17 (3, 4, 1)) = 1)"
proof -
  let ?K = "map (\<lambda>i. (if i = 5 then 1 else 0, 0, 1)) [0..<17] :: skeleton"
  have len: "length ?K = 17" by simp
  from normalize_keypoints_spec[OF len] obtain out where
    o: "normalize_keypoints ?K = Inr out"
    and n: "\<forall>n<17. out ! n =
          ((kx (?K ! n) - (kx (?K ! 11) + kx (?K ! 12)) / 2) / torso_size ?K,
           (ky (?K ! n) - (ky (?K ! 11) + ky (?K ! 12)) / 2) / torso_size ?K,
           kc (?K ! n))"
    and t: "torso_size ?K =
         (if point_distance (?K ! 5) (?K ! 12) < 1 / 10 ^ 8 then 1
          else point_distance (?K ! 5) (?K ! 12))"
    by blast
  have t1: "torso_size ?K = 1" unfolding t by (simp add: point_distance_def)
  have a: "out ! 5 = (1, 0, 1)" "out ! 11 = (0, 0, 1)" using n t1 by simp_all
  let ?R = "replicate 17 (3, 4, 1) :: skeleton"
  have lenR: "length ?R = 17" by simp
  from normalize_keypoints_spec[OF lenR] obtain outR where
    oR: "normalize_keypoints ?R = Inr outR"
    and nR: "\<forall>n<17. outR ! n =
          ((kx (?R ! n) - (kx (?R ! 11) + kx (?R ! 12)) / 2) / torso_size ?R,
           (ky (?R ! n) - (ky (?R ! 11) + ky (?R ! 12)) / 2) / torso_size ?R,
           kc (?R ! n))"
    and tR: "torso_size ?R =
         (if point_distance (?R ! 5) (?R ! 12) < 1 / 10 ^ 8 then 1
          else point_distance (?R ! 5) (?R ! 12))"
    by blast
  have tR1: "torso_size ?R = 1" unfolding tR by (simp add: point_distance_def)
  have b: "outR ! 5 = (0, 0, 1)" using nR tR1 by simp
  show ?thesis using len o a oR b tR1 by blast
qed

text \<open>Scaling by 2 and translating by \<open>(3, 4)\<close> moves row 5 to \<open>(5, 4)\<close> and leaves the result.\<close>

theorem normalize_keypoints_invariant_witness:
  "length (map (\<lambda>i. (if i = 5 then 1 else 0, 0, 1)) [0..<17] :: skeleton) = 17
   \<and> (0 :: real) < 2
   \<and> 1 / 10 ^ 8 \<le> point_distance ((map (\<lambda>i. (if i = 5 then 1 else 0, 0, 1)) [0..<17] :: skeleton) ! 5)
                                   ((map (\<lambda>i. (if i = 5 then 1 else 0, 0, 1)) [0..<17] :: skeleton) ! 12)
   \<and> 1 / 10 ^ 8 \<le> point_distance
        (similarity_transform 2 3 4 (map (\<lambda>i. (if i = 5 then 1 else 0, 0, 1)) [0..<17]) ! 5)
        (similarity_transform 2 3 4 (map (\<lambda>i. (if i = 5 then 1 else 0, 0, 1)) [0..<17]) ! 12)
   \<and> normalize_keypoints (similarity_transform 2 3 4 (map (\<lambda>i. (if i = 5 then 1 else 0, 0, 1)) [0..<17]))
       = normalize_keypoints (map (\<lambda>i. (if i = 5 then 1 else 0, 0, 1)) [0..<17])
   \<and> similarity_transform 2 3 4 (map (\<lambda>i. (if i = 5 then 1 else 0, 0, 1)) [0..<17]) ! 5 = (5, 4, 1)"
proof -
  let ?K = "map (\<lambda>i. (if i = 5 then 1 else 0, 0, 1)) [0..<17] :: skeleton"
  have len: "length ?K = 17" by simp
  have s: "(0 :: real) < 2" by simp
  have d: "1 / 10 ^ 8 \<le> point_distance (?K ! 5) (?K ! 12)"
    by (simp add: point_distance_def)
  have dT: "1 / 10 ^ 8 \<le> point_distance (similarity_transform 2 3 4 ?K ! 5)
                                            (similarity_transform 2 3 4 ?K ! 12)"
    by (simp add: point_distance_def similarity_transform_def)
  have e: "similarity_transform 2 3 4 ?K ! 5 = (5, 4, 1)"
    by (simp add: similarity_transform_def)
  from normalize_keypoints_invariant[OF len s d dT]
  have "normalize_keypoints (similarity_transform 2 3 4 ?K) = normalize_keypoints ?K" by auto
  then show ?thesis using len s d dT e by blast
qed

section \<open>Temporal smoothing\<close>

lemma smooth_loop_eq:
  "length prev = length cur \<Longrightarrow>
   smooth_loop prev cur =
     Inr (map (\<lambda>(p, c). if kc c < MIN_CONFIDENCE then c
                          else (6 / 10 * kx c + 4 / 10 * kx p, 6 / 10 * ky c + 4 / 10 * ky p, kc c))
            (zip prev cur))"
proof (induction prev cur rule: list_induct2)
  case Nil
  then show ?case by simp
next
  case (Cons p ps c cs)
  then show ?case by (simp add: smooth_alpha_def Let_def)
qed

text \<open>
  Claim C7. Without a previous state the current skeleton is stored and returned unchanged.
  With a previous skeleton of the same length, the result is stored as the new state and
  returned; a keypoint whose current confidence is below 0.3 is the current keypoint
  unchanged, any other keypoint has coordinates \<open>0.6 \<cdot> current + 0.4 \<cdot> previous\<close> and the
  current confidence. Previous \<open>(10, 10)\<close> and current \<open>(20, 20)\<close> give \<open>(16, 16)\<close>; with
  current confidence 0.2 they give \<open>(20, 20)\<close>.
\<close>

theorem smooth_pose_spec:
  "smooth_pose None current = Inr (Some current, current)
   \<and> (length prev = length current \<longrightarrow>
        (\<exists>out. smooth_pose (Some prev) current = Inr (Some out, out)
           \<and> length out = length current
           \<and> (\<forall>i<length current.
                 out ! i =
                   (if kc (current ! i) < MIN_CONFIDENCE then current ! i
                    else (0.6 * kx (current ! i) + 0.4 * kx (prev ! i),
                          0.6 * ky (current ! i) + 0.4 * ky (prev ! i),
                          kc (current ! i))))))
   \<and> smooth_pose (Some [(10, 10, 1)]) [(20, 20, 1)] = Inr (Some [(16, 16, 1)], [(16, 16, 1)])
   \<and> smooth_pose (Some [(10, 10, 1)]) [(20, 20, 0.2)] = Inr (Some [(20, 20, 0.2)], [(20, 20, 0.2)])"
proof -
  have a: "smooth_pose None current = Inr (Some current, current)"
    by (simp add: smooth_pose_def)
  have b: "\<exists>out. smooth_pose (Some prev) current = Inr (Some out, out)
           \<and> length out = length current
           \<and> (\<forall>i<length current.
                 out ! i =
                   (if kc (current ! i) < MIN_CONFIDENCE then current ! i
                    else (0.6 * kx (current ! i) + 0.4 * kx (prev ! i),
                          0.6 * ky (current ! i) + 0.4 * ky (prev ! i),
                          kc (current ! i))))"
    if len: "length prev = length current"
    using len by (simp add: smooth_pose_def smooth_loop_eq[OF len])
  have c: "smooth_pose (Some [(10, 10, 1)]) [(20, 20, 1)] = Inr (Some [(16, 16, 1)], [(16, 16, 1)])"
    by (simp add: smooth_pose_def smooth_alpha_def MIN_CONFIDENCE_def)
  have d: "smooth_pose (Some [(10, 10, 1)]) [(20, 20, 0.2)] = Inr (Some [(20, 20, 0.2)], [(20, 20, 0.2)])"
    by (simp add: smooth_pose_def smooth_alpha_def MIN_CONFIDENCE_def)
  show ?thesis using a b c d by blast
qed

text \<open>Two frames of 17 confident keypoints, at \<open>(10, 10)\<close> and then at \<open>(20, 20)\<close>.\<close>

theorem smooth_pose_spec_witness:
  "length (replicate 17 (10, 10, 1) :: skeleton) = length (replicate 17 (20, 20, 1) :: skeleton)
   \<and> smooth_pose None (replicate 17 (20, 20, 1)) =
        Inr (Some (replicate 17 (20, 20, 1)), replicate 17 (20, 20, 1))
   \<and> (\<exists>out. smooth_pose (Some (replicate 17 (10, 10, 1))) (replicate 17 (20, 20, 1)) = Inr (Some out, out)
         \<and> length out = 17 \<and> out ! 16 = (16, 16, 1))"
proof -
  let ?p = "replicate 17 (10, 10, 1) :: skeleton" and ?c = "replicate 17 (20, 20, 1) :: skeleton"
  have len: "length ?p = length ?c" by simp
  from smooth_pose_spec[of ?c ?p] len obtain out where
    o: "smooth_pose (Some ?p) ?c = Inr (Some out, out)" "length out = length ?c"
    and n: "\<forall>i<length ?c. out ! i =
                   (if kc (?c ! i) < MIN_CONFIDENCE then ?c ! i
                    else (0.6 * kx (?c ! i) + 0.4 * kx (?p ! i),
                          0.6 * ky (?c ! i) + 0.4 * ky (?p ! i),
                          kc (?c ! i)))"
    by blast
  from n have "out ! 16 = (16, 16, 1)" by (simp add: MIN_CONFIDENCE_def)
  moreover from smooth_pose_spec[of ?c ?p] have "smooth_pose None ?c = Inr (Some ?c, ?c)" by blast
  ultimately show ?thesis using o len by simp
qed

section \<open>Feedback classification\<close>

lemma ANGLE_NAMES_eq:
  "ANGLE_NAMES = [''left_elbow'', ''right_elbow'', ''left_shoulder'', ''right_shoulder'',
                  ''left_knee'', ''right_knee'', ''left_hip'', ''right_hip'']"
  by (simp add: ANGLE_NAMES_def ANGLE_DEFINITIONS_def)

lemma message_lookup:
  assumes "name \<in> set ANGLE_NAMES"
  shows "map_of GOOD_MESSAGES name = Some (good_message name)"
    and "map_of ANGLE_ISSUE_MESSAGES name = Some (too_small_message name, too_large_message name)"
  using assms
  by (auto simp: ANGLE_NAMES_eq GOOD_MESSAGES_def ANGLE_ISSUE_MESSAGES_def good_message_def
      too_small_message_def too_large_message_def)

lemma feedback_loop_eq:
  assumes "set names \<subseteq> set ANGLE_NAMES"
  shows "feedback_loop names la ra (issues, good) =
    Inr (issues @ concat (map (issues_of la ra) names), good @ concat (map (good_of la ra) names))"
  using assms
proof (induction names arbitrary: issues good)
  case Nil
  then show ?case by simp
next
  case (Cons name names)
  then have n: "name \<in> set ANGLE_NAMES" and r: "set names \<subseteq> set ANGLE_NAMES" by auto
  note IH = Cons.IH[OF r]
  show ?case
    by (auto simp: IH message_lookup[OF n] issues_of_def good_of_def joint_diff_def
        ANGLE_TOLERANCE_def Let_def split: option.splits)
qed

lemma count_list_concat_map:
  "count_list (concat (map f xs)) m = (\<Sum>x\<leftarrow>xs. count_list (f x) m)"
  by (induction xs) simp_all

lemma count_good_of:
  "count_list (good_of la ra n) m =
    (if m = good_message n \<and> (\<exists>d. joint_diff la ra n = Some d \<and> \<bar>d\<bar> \<le> 25) then 1 else 0)"
  by (auto simp: good_of_def split: option.splits)

lemma count_issues_of:
  "count_list (issues_of la ra n) m =
    (if (m = too_small_message n \<and> (\<exists>d. joint_diff la ra n = Some d \<and> d < - 25))
      \<or> (m = too_large_message n \<and> (\<exists>d. joint_diff la ra n = Some d \<and> 25 < d)) then 1 else 0)"
  by (auto simp: issues_of_def split: option.splits)

lemma good_message_values:
  "good_message ''left_elbow'' = ''Left elbow position correct''"
  "good_message ''right_elbow'' = ''Right elbow position correct''"
  "good_message ''left_shoulder'' = ''Left shoulder alignment correct''"
  "good_message ''right_shoulder'' = ''Right shoulder alignment correct''"
  "good_message ''left_knee'' = ''Left knee position correct''"
  "good_message ''right_knee'' = ''Right knee position correct''"
  "good_message ''left_hip'' = ''Left hip alignment correct''"
  "good_message ''right_hip'' = ''Right hip alignment correct''"
  by (simp_all add: good_message_def GOOD_MESSAGES_def)

lemma too_small_message_values:
  "too_small_message ''left_elbow'' = ''Left elbow bent too much''"
  "too_small_message ''right_elbow'' = ''Right elbow bent too much''"
  "too_small_message ''left_shoulder'' = ''Left arm too close to body''"
  "too_small_message ''right_shoulder'' = ''Right arm too close to body''"
  "too_small_message ''left_knee'' = ''Left knee bent too much''"
  "too_small_message ''right_knee'' = ''Right knee bent too much''"
  "too_small_message ''left_hip'' = ''Left hip angle too narrow''"
  "too_small_message ''right_hip'' = ''Right hip angle too narrow''"
  by (simp_all add: too_small_message_def ANGLE_ISSUE_MESSAGES_def)

lemma too_large_message_values:
  "too_large_message ''left_elbow'' = ''Left elbow not bent enough''"
  "too_large_message ''right_elbow'' = ''Right elbow not bent enough''"
  "too_large_message ''left_shoulder'' = ''Left arm raised too high''"
  "too_large_message ''right_shoulder'' = ''Right arm raised too high''"
  "too_large_message ''left_knee'' = ''Left knee not bent enough''"
  "too_large_message ''right_knee'' = ''Right knee not bent enough''"
  "too_large_message ''left_hip'' = ''Left hip angle too wide''"
  "too_large_message ''right_hip'' = ''Right hip angle too wide''"
  by (simp_all add: too_large_message_def ANGLE_ISSUE_MESSAGES_def)

lemmas message_values = good_message_values too_small_message_values too_large_message_values

lemma ANGLE_NAMES_mem:
  "name \<in> set ANGLE_NAMES \<longleftrightarrow>
     name = ''left_elbow'' \<or> name = ''right_elbow'' \<or> name = ''left_shoulder''
   \<or> name = ''right_shoulder'' \<or> name = ''left_knee'' \<or> name = ''right_knee''
   \<or> name = ''left_hip'' \<or> name = ''right_hip''"
  unfolding ANGLE_NAMES_eq by (simp only: list.set insert_iff empty_iff simp_thms)

lemma ANGLE_NAMES_induct [consumes 1]:
  assumes "name \<in> set ANGLE_NAMES"
    and "P ''left_elbow''" and "P ''right_elbow''" and "P ''left_shoulder''"
    and "P ''right_shoulder''" and "P ''left_knee''" and "P ''right_knee''"
    and "P ''left_hip''" and "P ''right_hip''"
  shows "P name"
  using assms(1) unfolding ANGLE_NAMES_mem
  by (elim disjE) (simp_all only: assms(2-))

lemma count_good_message:
  assumes "name \<in> set ANGLE_NAMES"
  shows "count_list (concat (map (good_of la ra) ANGLE_NAMES)) (good_message name) =
           (if \<exists>d. joint_diff la ra name = Some d \<and> \<bar>d\<bar> \<le> 25 then 1 else 0)
       \<and> count_list (concat (map (good_of la ra) ANGLE_NAMES)) (too_small_message name) = 0
       \<and> count_list (concat (map (good_of la ra) ANGLE_NAMES)) (too_large_message name) = 0"
  using assms
  by (induct rule: ANGLE_NAMES_induct)
     (simp_all add: ANGLE_NAMES_eq count_list_concat_map count_good_of message_values)

lemma count_issue_message:
  assumes "name \<in> set ANGLE_NAMES"
  shows "count_list (concat (map (issues_of la ra) ANGLE_NAMES)) (too_small_message name) =
           (if \<exists>d. joint_diff la ra name = Some d \<and> d < - 25 then 1 else 0)
       \<and> count_list (concat (map (issues_of la ra) ANGLE_NAMES)) (too_large_message name) =
           (if \<exists>d. joint_diff la ra name = Some d \<and> 25 < d then 1 else 0)
       \<and> count_list (concat (map (issues_of la ra) ANGLE_NAMES)) (good_message name) = 0"
  using assms
  by (induct rule: ANGLE_NAMES_induct)
     (simp_all add: ANGLE_NAMES_eq count_list_concat_map count_issues_of message_values)

lemma generate_feedback_eq:
  "generate_feedback la ra similarity confidence =
     Inr \<lparr>fb_similarity = similarity,
          fb_confidence = py_round confidence 2,
          fb_issues = concat (map (issues_of la ra) ANGLE_NAMES),
          fb_good = concat (map (good_of la ra) ANGLE_NAMES)\<rparr>"
  by (simp add: generate_feedback_def feedback_loop_eq)

lemma not_in_set_count: "x \<notin> set xs \<longleftrightarrow> count_list xs x = 0"
  by (simp add: count_list_0_iff)

text \<open>
  Claim C6. The feedback is always returned; it carries the similarity unchanged and the
  confidence rounded to 2 decimals, and its two lists are the contributions of the 8 joints
  in table order. For each of the 8 joints: when either angle is undefined none of the
  joint's three messages is in either list; when \<open>|diff| \<le> 25\<close> the joint's positive message
  occurs exactly once and neither of its issue messages occurs; when \<open>diff < -25\<close> its
  "too small" message occurs exactly once, and when \<open>diff > 25\<close> its "too large" message
  occurs exactly once, the joint's other two messages being absent. A positive message is
  never among the issues and an issue message never among the positive messages.
\<close>

theorem generate_feedback_spec:
  assumes "name \<in> set ANGLE_NAMES"
  shows "\<exists>fb. generate_feedback live_angles ref_angles similarity confidence = Inr fb
    \<and> fb_similarity fb = similarity
    \<and> fb_confidence fb = py_round confidence 2
    \<and> fb_issues fb = concat (map (issues_of live_angles ref_angles) ANGLE_NAMES)
    \<and> fb_good fb = concat (map (good_of live_angles ref_angles) ANGLE_NAMES)
    \<and> good_message name \<notin> set (fb_issues fb)
    \<and> too_small_message name \<notin> set (fb_good fb)
    \<and> too_large_message name \<notin> set (fb_good fb)
    \<and> (case joint_diff live_angles ref_angles name of
          None \<Rightarrow>
            good_message name \<notin> set (fb_good fb)
          \<and> too_small_message name \<notin> set (fb_issues fb)
          \<and> too_large_message name \<notin> set (fb_issues fb)
        | Some diff \<Rightarrow>
            (\<bar>diff\<bar> \<le> 25 \<longrightarrow>
               count_list (fb_good fb) (good_message name) = 1
             \<and> too_small_message name \<notin> set (fb_issues fb)
             \<and> too_large_message name \<notin> set (fb_issues fb))
          \<and> (diff < - 25 \<longrightarrow>
               count_list (fb_issues fb) (too_small_message name) = 1
             \<and> too_large_message name \<notin> set (fb_issues fb)
             \<and> good_message name \<notin> set (fb_good fb))
          \<and> (25 < diff \<longrightarrow>
               count_list (fb_issues fb) (too_large_message name) = 1
             \<and> too_small_message name \<notin> set (fb_issues fb)
             \<and> good_message name \<notin> set (fb_good fb)))"
proof -
  note g = count_good_message[OF assms, of live_angles ref_angles]
  note i = count_issue_message[OF assms, of live_angles ref_angles]
  show ?thesis
    unfolding generate_feedback_eq not_in_set_count
    using g i by (auto split: option.splits)
qed

text \<open>
  Live left elbow 100 against reference 80 (\<open>diff = 20\<close>), the left knee undefined on the live
  side: one positive message, no issue.
\<close>

theorem generate_feedback_spec_witness:
  "''left_elbow'' \<in> set ANGLE_NAMES
   \<and> (\<exists>fb. generate_feedback [(''left_elbow'', Some 100), (''left_knee'', None)]
               [(''left_elbow'', Some 80), (''left_knee'', Some 90)] 90 0.876 = Inr fb
         \<and> fb_similarity fb = 90
         \<and> fb_confidence fb = 0.88
         \<and> fb_issues fb = []
         \<and> fb_good fb = [''Left elbow position correct''])"
proof -
  have n: "''left_elbow'' \<in> set ANGLE_NAMES" by (simp add: ANGLE_NAMES_eq)
  have r: "py_round 0.876 2 = 0.88" by (simp add: py_round_def round_half_even_def)
  have i: "concat (map (issues_of [(''left_elbow'', Some 100), (''left_knee'', None)]
               [(''left_elbow'', Some 80), (''left_knee'', Some 90)]) ANGLE_NAMES) = []"
    by (simp add: ANGLE_NAMES_eq issues_of_def joint_diff_def dict_get_def)
  have g: "concat (map (good_of [(''left_elbow'', Some 100), (''left_knee'', None)]
               [(''left_elbow'', Some 80), (''left_knee'', Some 90)]) ANGLE_NAMES)
           = [''Left elbow position correct'']"
    by (simp add: ANGLE_NAMES_eq good_of_def joint_diff_def dict_get_def good_message_values)
  from generate_feedback_spec[OF n, of "[(''left_elbow'', Some 100), (''left_knee'', None)]"
      "[(''left_elbow'', Some 80), (''left_knee'', Some 90)]" 90 "0.876"]
  show ?thesis unfolding r i g using n by blast
qed

text \<open>\<open>diff = 26\<close> gives the "too large" issue only, \<open>diff = -26\<close> the "too small" issue only.\<close>

lemma feedback_too_large_example:
  "generate_feedback [(''left_elbow'', Some 106)] [(''left_elbow'', Some 80)] s c =
     Inr \<lparr>fb_similarity = s, fb_confidence = py_round c 2,
          fb_issues = [''Left elbow not bent enough''], fb_good = []\<rparr>"
  by (simp add: generate_feedback_eq ANGLE_NAMES_eq issues_of_def good_of_def joint_diff_def
      dict_get_def message_values)

lemma feedback_too_small_example:
  "generate_feedback [(''left_elbow'', Some 54)] [(''left_elbow'', Some 80)] s c =
     Inr \<lparr>fb_similarity = s, fb_confidence = py_round c 2,
          fb_issues = [''Left elbow bent too much''], fb_good = []\<rparr>"
  by (simp add: generate_feedback_eq ANGLE_NAMES_eq issues_of_def good_of_def joint_diff_def
      dict_get_def message_values)

section \<open>Single-image analysis\<close>

lemma landmarks_to_keypoints_eq:
  assumes "\<forall>i \<in> set idxs. i < length landmarks"
  shows "landmarks_to_keypoints (h, w) landmarks idxs =
     Inr (map (\<lambda>i. (kx (landmarks ! i) * real w, ky (landmarks ! i) * real h, kc (landmarks ! i))) idxs)"
  using assms by (induction idxs) (simp_all add: Let_def)

lemma landmarks_to_keypoints_Inr:
  "landmarks_to_keypoints (h, w) landmarks idxs = Inr kps \<Longrightarrow>
     kps = map (\<lambda>i. (kx (landmarks ! i) * real w, ky (landmarks ! i) * real h, kc (landmarks ! i))) idxs
     \<and> (\<forall>i \<in> set idxs. i < length landmarks)"
proof (induction idxs arbitrary: kps)
  case Nil
  then show ?case by simp
next
  case (Cons i idxs)
  then show ?case
    by (auto simp: Let_def split: if_splits sum.splits)
qed

lemma detect_keypoints_Some:
  assumes "detect_keypoints (h, w) pose_landmarks = Inr (Some kps)"
  shows "pose_landmarks \<noteq> []
     \<and> kps = map (\<lambda>i. (kx (hd pose_landmarks ! i) * real w, ky (hd pose_landmarks ! i) * real h,
                         kc (hd pose_landmarks ! i))) MEDIAPIPE_INDICES
     \<and> (\<forall>i \<in> set MEDIAPIPE_INDICES. i < length (hd pose_landmarks))
     \<and> length kps = 17"
proof -
  from assms obtain landmarks rest where p: "pose_landmarks = landmarks # rest"
    by (cases pose_landmarks) (auto simp: detect_keypoints_def)
  with assms have "landmarks_to_keypoints (h, w) landmarks MEDIAPIPE_INDICES = Inr kps"
    by (auto simp: detect_keypoints_def split: sum.splits)
  from landmarks_to_keypoints_Inr[OF this] show ?thesis
    using p by (simp add: MEDIAPIPE_INDICES_def)
qed

lemma detect_keypoints_eq:
  assumes "28 < length landmarks"
  shows "detect_keypoints (h, w) (landmarks # rest) =
     Inr (Some (map (\<lambda>i. (kx (landmarks ! i) * real w, ky (landmarks ! i) * real h, kc (landmarks ! i)))
                  MEDIAPIPE_INDICES))"
proof -
  have "\<forall>i \<in> set MEDIAPIPE_INDICES. i < length landmarks"
    using assms by (auto simp: MEDIAPIPE_INDICES_def)
  from landmarks_to_keypoints_eq[OF this] show ?thesis
    by (simp add: detect_keypoints_def)
qed

lemma normalize_keypoints_total:
  assumes "length kps = 17"
  shows "\<exists>out. normalize_keypoints kps = Inr out \<and> length out = 17"
  using assms by (simp add: normalize_keypoints_def)

lemma relative_kps_eq:
  assumes "0 < h" and "0 < w"
  shows "relative_kps (h, w) kps =
     Inr (map (\<lambda>kp. (py_round (kx kp / real w) 5, py_round (ky kp / real h) 5, py_round (kc kp) 4)) kps)"
  using assms by (simp add: relative_kps_def)

lemma analyze_image_total:
  assumes "map_of refs exercise = Some (ref_kps, ref_angles)"
    and "detect_keypoints (h, w) pose_landmarks = Inr (Some kps)"
    and "length ref_kps = 17" and "0 < h" and "0 < w"
  shows "\<exists>a. analyze_image refs exercise (Some (h, w)) pose_landmarks = Inr (Analysed a)"
proof -
  from detect_keypoints_Some[OF assms(2)] have len: "length kps = 17" by blast
  from compute_joint_angles_total[of kps] len obtain la where
    la: "compute_joint_angles kps = Inr la" by auto
  from normalize_keypoints_total[OF len] obtain nk where
    nk: "normalize_keypoints kps = Inr nk" "length nk = 17" by blast
  have "length nk = length ref_kps" "nk \<noteq> []" using nk(2) assms(3) by auto
  from compute_keypoint_similarity_range[OF this] obtain p where
    p: "compute_keypoint_similarity nk ref_kps = Inr p" by blast
  show ?thesis
    by (simp add: analyze_image_def assms(1,2) la nk(1) p compute_similarity_def
        generate_feedback_eq relative_kps_eq[OF assms(4,5)])
qed

lemma replicate_17: "replicate 17 x = [x, x, x, x, x, x, x, x, x, x, x, x, x, x, x, x, x]"
  by (simp add: eval_nat_numeral)

lemma detect_keypoints_replicate:
  "detect_keypoints (h, w) [replicate 33 (a, b, c)] = Inr (Some (replicate 17 (a * real w, b * real h, c)))"
  by (simp add: detect_keypoints_eq replicate_17) (simp add: MEDIAPIPE_INDICES_def)

lemma mean_confidence_replicate:
  "mean_confidence (replicate 17 (x, y, 1)) = 1"
  by (simp add: mean_confidence_def MIN_CONFIDENCE_def np_mean_def sum_list_replicate)

lemma py_round_examples:
  "py_round 1 2 = 1" "py_round 1 4 = 1" "py_round 1 5 = 1"
  "py_round (1 / 2) 5 = 1 / 2" "py_round (23 / 5) 5 = 23 / 5" "py_round (4 / 5) 5 = 4 / 5"
  using py_round_exact[of 100 2] py_round_exact[of 10000 4] py_round_exact[of 100000 5]
    py_round_exact[of 50000 5] py_round_exact[of 460000 5] py_round_exact[of 80000 5]
  by simp_all

lemma angle_deviations_Cons:
  "angle_deviations ((k, v) # la) ra = angle_deviations [(k, v)] ra @ angle_deviations la ra"
  by (simp add: angle_deviations_def)

lemma angle_deviations_single:
  "angle_deviations [(k, v)] ra =
    (case v of
       None \<Rightarrow> []
     | Some lv \<Rightarrow>
        (case dict_get ra k of
           None \<Rightarrow> []
         | Some rv \<Rightarrow>
            [(k, \<lparr>dv_live = py_round lv 1, dv_reference = py_round rv 1,
                   dv_deviation = py_round \<bar>lv - rv\<bar> 1,
                   dv_status = (if \<bar>lv - rv\<bar> \<le> 25 then ''correct'' else ''incorrect'')\<rparr>)]))"
  by (cases v; cases "dict_get ra k") (simp_all add: angle_deviations_def)

lemma angle_deviations_keys:
  "fst ` set (angle_deviations la ra) \<subseteq> fst ` set la"
proof (induction la)
  case Nil
  then show ?case by (simp add: angle_deviations_def)
next
  case (Cons e la)
  obtain k v where e: "e = (k, v)" by (cases e)
  have "fst ` set (angle_deviations [(k, v)] ra) \<subseteq> {k}"
    by (cases v; cases "dict_get ra k") (simp_all add: angle_deviations_single)
  with Cons.IH show ?case unfolding e by (subst angle_deviations_Cons) auto
qed

lemma map_of_angle_deviations:
  assumes "distinct (map fst la)"
  shows "map_of (angle_deviations la ra) name =
    (case map_of la name of
       Some (Some lv) \<Rightarrow>
         (case dict_get ra name of
            Some rv \<Rightarrow>
              Some \<lparr>dv_live = py_round lv 1, dv_reference = py_round rv 1,
                    dv_deviation = py_round \<bar>lv - rv\<bar> 1,
                    dv_status = (if \<bar>lv - rv\<bar> \<le> 25 then ''correct'' else ''incorrect'')\<rparr>
          | None \<Rightarrow> None)
     | _ \<Rightarrow> None)"
  using assms
proof (induction la)
  case Nil
  then show ?case by (simp add: angle_deviations_def)
next
  case (Cons e la)
  obtain k v where e: "e = (k, v)" by (cases e)
  from Cons.prems e have k: "k \<notin> fst ` set la" and dl: "distinct (map fst la)" by auto
  note IH = Cons.IH[OF dl]
  show ?case
  proof (cases "name = k")
    case True
    with k angle_deviations_keys[of la ra] have "k \<notin> fst ` set (angle_deviations la ra)" by auto
    then have none: "map_of (angle_deviations la ra) k = None"
      by (simp add: map_of_eq_None_iff)
    show ?thesis
      unfolding e True
      by (subst angle_deviations_Cons, cases v; cases "dict_get ra k")
         (simp_all add: angle_deviations_single none)
  next
    case False
    then have "map_of (angle_deviations [(k, v)] ra) name = None"
      by (cases v; cases "dict_get ra k") (simp_all add: angle_deviations_single)
    then show ?thesis
      unfolding e using False IH
      by (subst angle_deviations_Cons) (simp add: map_add_def)
  qed
qed

lemma map_of_rendered_angles:
  "map_of (rendered_angles la) name = map_option round_if_truthy (map_of la name)"
  unfolding rendered_angles_def by (induction la) auto

lemma analyze_image_Analysed:
  assumes "analyze_image refs exercise frame pose_landmarks = Inr (Analysed a)"
  shows "\<exists>shape keypoints live_angles ref_kps ref_angles.
      frame = Some shape
    \<and> map_of refs exercise = Some (ref_kps, ref_angles)
    \<and> detect_keypoints shape pose_landmarks = Inr (Some keypoints)
    \<and> compute_joint_angles keypoints = Inr live_angles
    \<and> an_live_angles a = rendered_angles live_angles
    \<and> an_reference_angles a = rendered_angles ref_angles
    \<and> an_angle_deviations a = angle_deviations live_angles ref_angles
    \<and> an_issues a = concat (map (issues_of live_angles ref_angles) ANGLE_NAMES)
    \<and> an_good a = concat (map (good_of live_angles ref_angles) ANGLE_NAMES)"
proof -
  from assms obtain ref_kps ref_angles where m: "map_of refs exercise = Some (ref_kps, ref_angles)"
    by (cases "map_of refs exercise") (auto simp: analyze_image_def)
  from assms m obtain shape where f: "frame = Some shape"
    by (cases frame) (auto simp: analyze_image_def)
  from assms m f obtain keypoints where d: "detect_keypoints shape pose_landmarks = Inr (Some keypoints)"
    by (cases "detect_keypoints shape pose_landmarks")
       (auto simp: analyze_image_def split: option.splits)
  from assms m f d obtain live_angles where l: "compute_joint_angles keypoints = Inr live_angles"
    by (cases "compute_joint_angles keypoints") (auto simp: analyze_image_def)
  from assms have "an_live_angles a = rendered_angles live_angles
      \<and> an_reference_angles a = rendered_angles ref_angles
      \<and> an_angle_deviations a = angle_deviations live_angles ref_angles
      \<and> an_issues a = concat (map (issues_of live_angles ref_angles) ANGLE_NAMES)
      \<and> an_good a = concat (map (good_of live_angles ref_angles) ANGLE_NAMES)"
    by (auto simp: analyze_image_def m f d l generate_feedback_eq split: sum.split_asm)
  then show ?thesis using m f d l by blast
qed

lemma in_set_count: "x \<in> set xs \<longleftrightarrow> count_list xs x \<noteq> 0"
  by (simp add: count_list_0_iff)

lemma joint_message_present:
  assumes "name \<in> set ANGLE_NAMES"
  shows "(good_message name \<in> set (concat (map (good_of la ra) ANGLE_NAMES))
          \<or> too_small_message name \<in> set (concat (map (issues_of la ra) ANGLE_NAMES))
          \<or> too_large_message name \<in> set (concat (map (issues_of la ra) ANGLE_NAMES)))
         \<longleftrightarrow> joint_diff la ra name \<noteq> None"
proof (cases "joint_diff la ra name")
  case None
  with count_good_message[OF assms, of la ra] count_issue_message[OF assms, of la ra]
  have g: "count_list (concat (map (good_of la ra) ANGLE_NAMES)) (good_message name) = 0"
    "count_list (concat (map (issues_of la ra) ANGLE_NAMES)) (too_small_message name) = 0"
    "count_list (concat (map (issues_of la ra) ANGLE_NAMES)) (too_large_message name) = 0"
    by simp_all
  show ?thesis unfolding in_set_count by (simp only: g None) simp
next
  case (Some d)
  consider "\<bar>d\<bar> \<le> 25" | "d < - 25" | "25 < d" by linarith
  then show ?thesis
  proof cases
    case 1
    with Some count_good_message[OF assms, of la ra]
    have "count_list (concat (map (good_of la ra) ANGLE_NAMES)) (good_message name) = 1" by simp
    then have "good_message name \<in> set (concat (map (good_of la ra) ANGLE_NAMES))"
      by (metis count_list_0_iff zero_neq_one)
    with Some show ?thesis by simp
  next
    case 2
    with Some count_issue_message[OF assms, of la ra]
    have "count_list (concat (map (issues_of la ra) ANGLE_NAMES)) (too_small_message name) = 1" by simp
    then have "too_small_message name \<in> set (concat (map (issues_of la ra) ANGLE_NAMES))"
      by (metis count_list_0_iff zero_neq_one)
    with Some show ?thesis by simp
  next
    case 3
    with Some count_issue_message[OF assms, of la ra]
    have "count_list (concat (map (issues_of la ra) ANGLE_NAMES)) (too_large_message name) = 1" by simp
    then have "too_large_message name \<in> set (concat (map (issues_of la ra) ANGLE_NAMES))"
      by (metis count_list_0_iff zero_neq_one)
    with Some show ?thesis by simp
  qed
qed

lemma compute_joint_angles_keys:
  assumes "compute_joint_angles keypoints = Inr live_angles" and "17 \<le> length keypoints"
    and "name \<in> set ANGLE_NAMES"
  shows "distinct (map fst live_angles) \<and> map_of live_angles name = Some (dict_get live_angles name)"
proof -
  from compute_joint_angles_total[OF assms(2)] assms(1)
  have keys: "map fst live_angles = ANGLE_NAMES" by simp
  then have d: "distinct (map fst live_angles)"
    using ANGLE_DEFINITIONS_distinct by (simp add: ANGLE_NAMES_def)
  from keys assms(3) have "name \<in> fst ` set live_angles" by (metis list.set_map)
  then obtain v where "map_of live_angles name = Some v"
    by (metis map_of_eq_None_iff option.exhaust)
  then show ?thesis using d by (simp add: dict_get_def)
qed

text \<open>
  Claim C10, as amended. Whenever the single-image analysis returns a full analysis, its
  \<open>live_angles\<close> and \<open>reference_angles\<close> fields are the computed live angles and the reference
  angles with every value passed through \<^verbatim>\<open>round(v, 1) if v else None\<close>: an undefined angle
  and a defined angle equal to 0 are both rendered as \<open>None\<close>, any other defined angle as the
  number rounded to 1 decimal. The two are alike in these two fields only. For each of the
  8 joints the response has an \<open>angle_deviations\<close> entry, holding the live and the reference
  angle rounded to 1 decimal, and a feedback message of the joint exactly when both the
  live and the reference angle are defined: a defined live angle of 0 with a defined
  reference has both, while an undefined angle has neither.
\<close>

theorem analyze_image_angle_rendering:
  assumes "analyze_image refs exercise frame pose_landmarks = Inr (Analysed a)"
    and "name \<in> set ANGLE_NAMES"
  shows "\<exists>shape keypoints live_angles ref_kps ref_angles.
      frame = Some shape
    \<and> map_of refs exercise = Some (ref_kps, ref_angles)
    \<and> detect_keypoints shape pose_landmarks = Inr (Some keypoints)
    \<and> compute_joint_angles keypoints = Inr live_angles
    \<and> an_live_angles a =
        map (\<lambda>(k, v). (k, case v of None \<Rightarrow> None
                             | Some x \<Rightarrow> if x = 0 then None else Some (py_round x 1))) live_angles
    \<and> an_reference_angles a =
        map (\<lambda>(k, v). (k, case v of None \<Rightarrow> None
                             | Some x \<Rightarrow> if x = 0 then None else Some (py_round x 1))) ref_angles
    \<and> map_of (an_live_angles a) name =
        Some (case dict_get live_angles name of
                None \<Rightarrow> None
              | Some x \<Rightarrow> if x = 0 then None else Some (py_round x 1))
    \<and> (case dict_get live_angles name of
          None \<Rightarrow>
            map_of (an_angle_deviations a) name = None
          \<and> good_message name \<notin> set (an_good a)
          \<and> too_small_message name \<notin> set (an_issues a)
          \<and> too_large_message name \<notin> set (an_issues a)
        | Some lv \<Rightarrow>
           (case dict_get ref_angles name of
              None \<Rightarrow>
                map_of (an_angle_deviations a) name = None
              \<and> good_message name \<notin> set (an_good a)
              \<and> too_small_message name \<notin> set (an_issues a)
              \<and> too_large_message name \<notin> set (an_issues a)
            | Some rv \<Rightarrow>
                map_of (an_angle_deviations a) name =
                  Some \<lparr>dv_live = py_round lv 1, dv_reference = py_round rv 1,
                        dv_deviation = py_round \<bar>lv - rv\<bar> 1,
                        dv_status = (if \<bar>lv - rv\<bar> \<le> 25 then ''correct'' else ''incorrect'')\<rparr>
              \<and> (good_message name \<in> set (an_good a)
                   \<or> too_small_message name \<in> set (an_issues a)
                   \<or> too_large_message name \<in> set (an_issues a))))"
proof -
  from analyze_image_Analysed[OF assms(1)] obtain shape keypoints live_angles ref_kps ref_angles
    where f: "frame = Some shape"
      and m: "map_of refs exercise = Some (ref_kps, ref_angles)"
      and d: "detect_keypoints shape pose_landmarks = Inr (Some keypoints)"
      and l: "compute_joint_angles keypoints = Inr live_angles"
      and la: "an_live_angles a = rendered_angles live_angles"
      and ra: "an_reference_angles a = rendered_angles ref_angles"
      and dv: "an_angle_deviations a = angle_deviations live_angles ref_angles"
      and iss: "an_issues a = concat (map (issues_of live_angles ref_angles) ANGLE_NAMES)"
      and gd: "an_good a = concat (map (good_of live_angles ref_angles) ANGLE_NAMES)"
    by blast
  obtain h w where shape: "shape = (h, w)" by (cases shape)
  from detect_keypoints_Some[OF d[unfolded shape]] have "length keypoints = 17" by blast
  then have "17 \<le> length keypoints" by simp
  from compute_joint_angles_keys[OF l this assms(2)]
  have dist: "distinct (map fst live_angles)"
    and look: "map_of live_angles name = Some (dict_get live_angles name)" by blast+
  have r: "rendered_angles xs =
        map (\<lambda>(k, v). (k, case v of None \<Rightarrow> None
                             | Some x \<Rightarrow> if x = 0 then None else Some (py_round x 1))) xs" for xs
    unfolding rendered_angles_def round_if_truthy_def
    by (rule map_cong) (auto split: option.splits)
  have one: "map_of (an_live_angles a) name =
        Some (case dict_get live_angles name of
                None \<Rightarrow> None
              | Some x \<Rightarrow> if x = 0 then None else Some (py_round x 1))"
    unfolding la map_of_rendered_angles look
    by (simp add: round_if_truthy_def split: option.splits)
  have dev: "map_of (an_angle_deviations a) name =
      (case dict_get live_angles name of
         None \<Rightarrow> None
       | Some lv \<Rightarrow>
          (case dict_get ref_angles name of
             None \<Rightarrow> None
           | Some rv \<Rightarrow>
              Some \<lparr>dv_live = py_round lv 1, dv_reference = py_round rv 1,
                    dv_deviation = py_round \<bar>lv - rv\<bar> 1,
                    dv_status = (if \<bar>lv - rv\<bar> \<le> 25 then ''correct'' else ''incorrect'')\<rparr>))"
    unfolding dv map_of_angle_deviations[OF dist] look
    by (simp split: option.splits)
  note msg = joint_message_present[OF assms(2), of live_angles ref_angles, folded gd iss]
  have two: "(case dict_get live_angles name of
          None \<Rightarrow>
            map_of (an_angle_deviations a) name = None
          \<and> good_message name \<notin> set (an_good a)
          \<and> too_small_message name \<notin> set (an_issues a)
          \<and> too_large_message name \<notin> set (an_issues a)
        | Some lv \<Rightarrow>
           (case dict_get ref_angles name of
              None \<Rightarrow>
                map_of (an_angle_deviations a) name = None
              \<and> good_message name \<notin> set (an_good a)
              \<and> too_small_message name \<notin> set (an_issues a)
              \<and> too_large_message name \<notin> set (an_issues a)
            | Some rv \<Rightarrow>
                map_of (an_angle_deviations a) name =
                  Some \<lparr>dv_live = py_round lv 1, dv_reference = py_round rv 1,
                        dv_deviation = py_round \<bar>lv - rv\<bar> 1,
                        dv_status = (if \<bar>lv - rv\<bar> \<le> 25 then ''correct'' else ''incorrect'')\<rparr>
              \<and> (good_message name \<in> set (an_good a)
                   \<or> too_small_message name \<in> set (an_issues a)
                   \<or> too_large_message name \<in> set (an_issues a))))"
    using msg unfolding dev joint_diff_def
    by (cases "dict_get live_angles name"; cases "dict_get ref_angles name") simp_all
  show ?thesis
    using f m d l la[unfolded r] ra[unfolded r] one two by blast
qed

lemma analyze_image_eq:
  assumes "map_of refs exercise = Some (ref_kps, ref_angles)"
    and "detect_keypoints (h, w) pose_landmarks = Inr (Some kps)"
    and "compute_joint_angles kps = Inr la"
    and "normalize_keypoints kps = Inr nk"
    and "compute_keypoint_similarity nk ref_kps = Inr p"
    and "0 < h" and "0 < w"
  shows "analyze_image refs exercise (Some (h, w)) pose_landmarks =
    Inr (Analysed
      \<lparr>an_exercise = exercise,
       an_similarity = final_score p (compute_angle_similarity la ref_angles),
       an_keypoint_similarity = py_round p 1,
       an_angle_similarity = py_round (compute_angle_similarity la ref_angles) 1,
       an_confidence = py_round (mean_confidence kps) 2,
       an_skeleton_color = skeleton_color (final_score p (compute_angle_similarity la ref_angles)),
       an_issues = concat (map (issues_of la ref_angles) ANGLE_NAMES),
       an_good = concat (map (good_of la ref_angles) ANGLE_NAMES),
       an_keypoints =
         map (\<lambda>kp. (py_round (kx kp / real w) 5, py_round (ky kp / real h) 5, py_round (kc kp) 4)) kps,
       an_live_angles = rendered_angles la,
       an_reference_angles = rendered_angles ref_angles,
       an_angle_deviations = angle_deviations la ref_angles\<rparr>)"
  by (simp add: analyze_image_def assms(1-5) compute_similarity_def generate_feedback_eq
      relative_kps_eq[OF assms(6,7)])

lemma joint_angles_coincident:
  "compute_joint_angles (replicate 17 (320, 240, 1)) =
     Inr [(''left_elbow'', Some 0), (''right_elbow'', Some 0), (''left_shoulder'', Some 0),
          (''right_shoulder'', Some 0), (''left_knee'', Some 0), (''right_knee'', Some 0),
          (''left_hip'', Some 0), (''right_hip'', Some 0)]"
  by (simp add: compute_joint_angles_def ANGLE_DEFINITIONS_def joint_angle_def
      MIN_CONFIDENCE_def compute_angle_def py_round_0)

lemma joint_angles_invisible:
  "compute_joint_angles (replicate 17 (320, 240, 0)) =
     Inr [(''left_elbow'', None), (''right_elbow'', None), (''left_shoulder'', None),
          (''right_shoulder'', None), (''left_knee'', None), (''right_knee'', None),
          (''left_hip'', None), (''right_hip'', None)]"
  by (simp add: compute_joint_angles_def ANGLE_DEFINITIONS_def joint_angle_def
      MIN_CONFIDENCE_def)

lemma normalize_keypoints_replicate:
  "normalize_keypoints (replicate 17 (x, y, c)) = Inr (replicate 17 (0, 0, c))"
  by (simp add: normalize_keypoints_def torso_center_def torso_size_def)

lemma keypoint_similarity_replicate:
  "compute_keypoint_similarity (replicate 17 (0, 0, 1)) (replicate 17 (0, 0, 1)) = Inr 100"
  "compute_keypoint_similarity (replicate 17 (0, 0, 0)) (replicate 17 (0, 0, 1)) = Inr 50"
  by (simp_all add: compute_keypoint_similarity_eq masked_pairs_def MIN_CONFIDENCE_def
      point_distance_def np_mean_def sum_list_replicate)

lemma py_round_more:
  "py_round 100 1 = 100" "py_round 50 1 = 50" "py_round 10 1 = 10"
  using py_round_exact[of 1000 1] py_round_exact[of 500 1] py_round_exact[of 100 1]
  by simp_all

lemma mean_confidence_invisible: "mean_confidence (replicate 17 (x, y, 0)) = 0"
  by (simp add: mean_confidence_def MIN_CONFIDENCE_def)

lemma analysis_coincident:
  "analyze_image [(''tree'', replicate 17 (0, 0, 1), [(''left_elbow'', Some 10)])] ''tree''
     (Some (480, 640)) [replicate 33 (1 / 2, 1 / 2, 1)] =
   Inr (Analysed
     \<lparr>an_exercise = ''tree'', an_similarity = 100, an_keypoint_similarity = 100,
      an_angle_similarity = 100, an_confidence = 1, an_skeleton_color = ''green'',
      an_issues = [], an_good = [''Left elbow position correct''],
      an_keypoints = replicate 17 (1 / 2, 1 / 2, 1),
      an_live_angles =
        [(''left_elbow'', None), (''right_elbow'', None), (''left_shoulder'', None),
         (''right_shoulder'', None), (''left_knee'', None), (''right_knee'', None),
         (''left_hip'', None), (''right_hip'', None)],
      an_reference_angles = [(''left_elbow'', Some 10)],
      an_angle_deviations =
        [(''left_elbow'', \<lparr>dv_live = 0, dv_reference = 10, dv_deviation = 10,
                            dv_status = ''correct''\<rparr>)]\<rparr>)"
proof -
  have m: "map_of [(''tree'', replicate 17 (0, 0, 1), [(''left_elbow'', Some 10)])] ''tree'' =
      Some (replicate 17 (0, 0, 1), [(''left_elbow'', Some 10)])" by simp
  have d: "detect_keypoints (480, 640) [replicate 33 (1 / 2, 1 / 2, 1)] =
      Inr (Some (replicate 17 (320, 240, 1)))"
    by (simp add: detect_keypoints_replicate)
  have a: "compute_angle_similarity
      [(''left_elbow'', Some 0), (''right_elbow'', Some 0), (''left_shoulder'', Some 0),
       (''right_shoulder'', Some 0), (''left_knee'', Some 0), (''right_knee'', Some 0),
       (''left_hip'', Some 0), (''right_hip'', Some 0)] [(''left_elbow'', Some 10)] = 100"
    by (simp add: compute_angle_similarity_def ANGLE_NAMES_eq dict_get_def diff_score_def
        np_mean_def)
  have f: "final_score 100 100 = 100" by (simp add: final_score_def py_round_more[unfolded One_nat_def])
  show ?thesis
    unfolding analyze_image_eq[OF m d joint_angles_coincident normalize_keypoints_replicate
        keypoint_similarity_replicate(1), simplified] a f
    by (simp add: py_round_more py_round_more[unfolded One_nat_def] py_round_examples py_round_0 mean_confidence_replicate
        skeleton_color_def ANGLE_NAMES_eq issues_of_def good_of_def joint_diff_def dict_get_def
        good_message_values rendered_angles_def round_if_truthy_def angle_deviations_def)
qed

lemma analysis_invisible:
  "analyze_image [(''tree'', replicate 17 (0, 0, 1), [(''left_elbow'', Some 10)])] ''tree''
     (Some (480, 640)) [replicate 33 (1 / 2, 1 / 2, 0)] =
   Inr (Analysed
     \<lparr>an_exercise = ''tree'', an_similarity = 50, an_keypoint_similarity = 50,
      an_angle_similarity = 50, an_confidence = 0, an_skeleton_color = ''red'',
      an_issues = [], an_good = [],
      an_keypoints = replicate 17 (1 / 2, 1 / 2, 0),
      an_live_angles =
        [(''left_elbow'', None), (''right_elbow'', None), (''left_shoulder'', None),
         (''right_shoulder'', None), (''left_knee'', None), (''right_knee'', None),
         (''left_hip'', None), (''right_hip'', None)],
      an_reference_angles = [(''left_elbow'', Some 10)],
      an_angle_deviations = []\<rparr>)"
proof -
  have m: "map_of [(''tree'', replicate 17 (0, 0, 1), [(''left_elbow'', Some 10)])] ''tree'' =
      Some (replicate 17 (0, 0, 1), [(''left_elbow'', Some 10)])" by simp
  have d: "detect_keypoints (480, 640) [replicate 33 (1 / 2, 1 / 2, 0)] =
      Inr (Some (replicate 17 (320, 240, 0)))"
    by (simp add: detect_keypoints_replicate)
  have a: "compute_angle_similarity
      [(''left_elbow'', None), (''right_elbow'', None), (''left_shoulder'', None),
       (''right_shoulder'', None), (''left_knee'', None), (''right_knee'', None),
       (''left_hip'', None), (''right_hip'', None)] [(''left_elbow'', Some 10)] = 50"
    by (simp add: compute_angle_similarity_def ANGLE_NAMES_eq dict_get_def)
  have f: "final_score 50 50 = 50" by (simp add: final_score_def py_round_more[unfolded One_nat_def])
  show ?thesis
    unfolding analyze_image_eq[OF m d joint_angles_invisible normalize_keypoints_replicate
        keypoint_similarity_replicate(2), simplified] a f
    by (simp add: py_round_more py_round_more[unfolded One_nat_def] py_round_examples py_round_0 mean_confidence_invisible
        skeleton_color_def ANGLE_NAMES_eq issues_of_def good_of_def joint_diff_def dict_get_def
        rendered_angles_def round_if_truthy_def angle_deviations_def)
qed

text \<open>
  All landmarks at the centre of a 640 by 480 frame, reference left elbow 10: the live left
  elbow is the degenerate 0 and is rendered as \<open>None\<close>, and the response holds its deviation
  entry with live value 0 and a message of the joint.
\<close>

theorem analyze_image_angle_rendering_witness:
  "''left_elbow'' \<in> set ANGLE_NAMES
   \<and> (\<exists>a. analyze_image [(''tree'', replicate 17 (0, 0, 1), [(''left_elbow'', Some 10)])] ''tree''
             (Some (480, 640)) [replicate 33 (1 / 2, 1 / 2, 1)] = Inr (Analysed a)
         \<and> map_of (an_live_angles a) ''left_elbow'' = Some None
         \<and> map_of (an_angle_deviations a) ''left_elbow'' =
             Some \<lparr>dv_live = 0, dv_reference = 10, dv_deviation = 10, dv_status = ''correct''\<rparr>
         \<and> (good_message ''left_elbow'' \<in> set (an_good a)
              \<or> too_small_message ''left_elbow'' \<in> set (an_issues a)
              \<or> too_large_message ''left_elbow'' \<in> set (an_issues a)))"
proof -
  let ?refs = "[(''tree'', replicate 17 (0, 0, 1), [(''left_elbow'', Some 10)])] :: references"
  let ?L = "[replicate 33 (1 / 2, 1 / 2, 1)] :: landmark list list"
  have n: "''left_elbow'' \<in> set ANGLE_NAMES" by (simp add: ANGLE_NAMES_eq)
  from analysis_coincident obtain a where
    a: "analyze_image ?refs ''tree'' (Some (480, 640)) ?L = Inr (Analysed a)" by blast
  from analyze_image_angle_rendering[OF a n]
  obtain shape keypoints live_angles ref_kps ref_angles where
    s: "Some (480 :: nat, 640 :: nat) = Some shape"
    and m: "map_of ?refs ''tree'' = Some (ref_kps, ref_angles)"
    and d: "detect_keypoints shape ?L = Inr (Some keypoints)"
    and l: "compute_joint_angles keypoints = Inr live_angles"
    and one: "map_of (an_live_angles a) ''left_elbow'' =
        Some (case dict_get live_angles ''left_elbow'' of
                None \<Rightarrow> None
              | Some x \<Rightarrow> if x = 0 then None else Some (py_round x 1))"
    and two: "(case dict_get live_angles ''left_elbow'' of
          None \<Rightarrow>
            map_of (an_angle_deviations a) ''left_elbow'' = None
          \<and> good_message ''left_elbow'' \<notin> set (an_good a)
          \<and> too_small_message ''left_elbow'' \<notin> set (an_issues a)
          \<and> too_large_message ''left_elbow'' \<notin> set (an_issues a)
        | Some lv \<Rightarrow>
           (case dict_get ref_angles ''left_elbow'' of
              None \<Rightarrow>
                map_of (an_angle_deviations a) ''left_elbow'' = None
              \<and> good_message ''left_elbow'' \<notin> set (an_good a)
              \<and> too_small_message ''left_elbow'' \<notin> set (an_issues a)
              \<and> too_large_message ''left_elbow'' \<notin> set (an_issues a)
            | Some rv \<Rightarrow>
                map_of (an_angle_deviations a) ''left_elbow'' =
                  Some \<lparr>dv_live = py_round lv 1, dv_reference = py_round rv 1,
                        dv_deviation = py_round \<bar>lv - rv\<bar> 1,
                        dv_status = (if \<bar>lv - rv\<bar> \<le> 25 then ''correct'' else ''incorrect'')\<rparr>
              \<and> (good_message ''left_elbow'' \<in> set (an_good a)
                   \<or> too_small_message ''left_elbow'' \<in> set (an_issues a)
                   \<or> too_large_message ''left_elbow'' \<in> set (an_issues a))))"
    by blast
  from s have shape: "shape = (480, 640)" by simp
  from d have k: "keypoints = replicate 17 (320, 240, 1)"
    unfolding shape by (simp add: detect_keypoints_replicate)
  from l have lv: "dict_get live_angles ''left_elbow'' = Some 0"
    unfolding k joint_angles_coincident by (auto simp: dict_get_def)
  from m have rv: "dict_get ref_angles ''left_elbow'' = Some 10"
    by (auto simp: dict_get_def)
  from one have r1: "map_of (an_live_angles a) ''left_elbow'' = Some None"
    unfolding lv by simp
  from two have r2: "map_of (an_angle_deviations a) ''left_elbow'' =
             Some \<lparr>dv_live = 0, dv_reference = 10, dv_deviation = 10, dv_status = ''correct''\<rparr>
         \<and> (good_message ''left_elbow'' \<in> set (an_good a)
              \<or> too_small_message ''left_elbow'' \<in> set (an_issues a)
              \<or> too_large_message ''left_elbow'' \<in> set (an_issues a))"
    unfolding lv rv by (simp add: py_round_0 py_round_more py_round_more[unfolded One_nat_def])
  from n a r1 r2 show ?thesis by blast
qed

text \<open>
  Claim C10 as stated fails where it calls a defined 0 indistinguishable from an undefined
  angle. With all landmarks at the centre and visible, every live angle is the defined 0;
  with the same landmarks at visibility 0, every live angle is undefined. Both responses
  show the same \<open>live_angles\<close>, all \<open>None\<close>, but the first has a deviation entry with live
  value 0 and a positive message for the left elbow and the second has neither.
\<close>

theorem zero_angle_distinguishable_counterexample:
  "compute_joint_angles (replicate 17 (320, 240, 1)) =
     Inr [(''left_elbow'', Some 0), (''right_elbow'', Some 0), (''left_shoulder'', Some 0),
          (''right_shoulder'', Some 0), (''left_knee'', Some 0), (''right_knee'', Some 0),
          (''left_hip'', Some 0), (''right_hip'', Some 0)]
   \<and> analyze_image [(''tree'', replicate 17 (0, 0, 1), [(''left_elbow'', Some 10)])] ''tree''
       (Some (480, 640)) [replicate 33 (1 / 2, 1 / 2, 1)] =
     Inr (Analysed
       \<lparr>an_exercise = ''tree'', an_similarity = 100, an_keypoint_similarity = 100,
        an_angle_similarity = 100, an_confidence = 1, an_skeleton_color = ''green'',
        an_issues = [], an_good = [''Left elbow position correct''],
        an_keypoints = replicate 17 (1 / 2, 1 / 2, 1),
        an_live_angles =
          [(''left_elbow'', None), (''right_elbow'', None), (''left_shoulder'', None),
           (''right_shoulder'', None), (''left_knee'', None), (''right_knee'', None),
           (''left_hip'', None), (''right_hip'', None)],
        an_reference_angles = [(''left_elbow'', Some 10)],
        an_angle_deviations =
          [(''left_elbow'', \<lparr>dv_live = 0, dv_reference = 10, dv_deviation = 10,
                              dv_status = ''correct''\<rparr>)]\<rparr>)
   \<and> compute_joint_angles (replicate 17 (320, 240, 0)) =
     Inr [(''left_elbow'', None), (''right_elbow'', None), (''left_shoulder'', None),
          (''right_shoulder'', None), (''left_knee'', None), (''right_knee'', None),
          (''left_hip'', None), (''right_hip'', None)]
   \<and> analyze_image [(''tree'', replicate 17 (0, 0, 1), [(''left_elbow'', Some 10)])] ''tree''
       (Some (480, 640)) [replicate 33 (1 / 2, 1 / 2, 0)] =
     Inr (Analysed
       \<lparr>an_exercise = ''tree'', an_similarity = 50, an_keypoint_similarity = 50,
        an_angle_similarity = 50, an_confidence = 0, an_skeleton_color = ''red'',
        an_issues = [], an_good = [],
        an_keypoints = replicate 17 (1 / 2, 1 / 2, 0),
        an_live_angles =
          [(''left_elbow'', None), (''right_elbow'', None), (''left_shoulder'', None),
           (''right_shoulder'', None), (''left_knee'', None), (''right_knee'', None),
           (''left_hip'', None), (''right_hip'', None)],
        an_reference_angles = [(''left_elbow'', Some 10)],
        an_angle_deviations = []\<rparr>)
   \<and> [(''left_elbow'', \<lparr>dv_live = 0 :: real, dv_reference = 10 :: real, dv_deviation = 10 :: real,
                         dv_status = ''correct''\<rparr>)] \<noteq> []
   \<and> [''Left elbow position correct''] \<noteq> []"
  using joint_angles_coincident analysis_coincident joint_angles_invisible analysis_invisible
  by simp

section \<open>The streaming result record\<close>












end
